theory Spec2Isabelle
  imports Complex_Main
begin

section \<open>Tensors and the backend operations\<close>

text \<open>
  The functions of \<^verbatim>\<open>segmentation_models/utils/functional.py\<close> work on Keras
  tensors through a backend module. A tensor of shape (B, H, W, C) is a list of B
  images, each a list of H rows, each a list of W pixels, each a list of C channel
  values. The entries are real numbers: the model is the exact arithmetic the float
  formulas stand for, without rounding.

  The backend is not part of the repository. Its operations are modelled by what the
  Keras backend documents for them, on tensors of equal shape. Broadcasting between
  two tensors of different shape, and the exception the backend raises when shapes do
  not fit, are outside the model: the theorems below assume the shapes. A dimension
  of size 0 makes the backend take the mean of nothing; the theorems assume positive
  dimensions.

  Division by zero gives an infinity or NaN in the backend and 0 in HOL, and the
  logarithm of a number that is not positive is NaN or an infinity in the backend and
  a real number in HOL. The metrics and the focal loss are modelled in the real
  numbers: where a theorem states a value of theirs, its hypotheses keep the
  denominators away from zero and the arguments of the logarithm positive.
  \<open>categorical_crossentropy\<close>, which divides the prediction by a sum of its entries,
  is modelled with the infinities and NaN.
\<close>

type_synonym tensor1 = "real list"
type_synonym tensor2 = "real list list"
type_synonym tensor3 = "real list list list"
type_synonym tensor4 = "real list list list list"

text \<open>\<open>class_weights\<close> is a number or a list with one weight for each class.\<close>

datatype weights = Scalar real | PerClass "real list"

text \<open>\<open>backend.image_data_format()\<close>.\<close>

datatype data_format = ChannelsLast | ChannelsFirst

definition shape2 :: "nat \<Rightarrow> nat \<Rightarrow> 'a list list \<Rightarrow> bool" where
  "shape2 B C t \<longleftrightarrow> length t = B \<and> (\<forall>v \<in> set t. length v = C)"

definition shape3 :: "nat \<Rightarrow> nat \<Rightarrow> nat \<Rightarrow> 'a list list list \<Rightarrow> bool" where
  "shape3 H W C t \<longleftrightarrow> length t = H \<and> (\<forall>row \<in> set t. shape2 W C row)"

definition shape4 :: "nat \<Rightarrow> nat \<Rightarrow> nat \<Rightarrow> nat \<Rightarrow> 'a list list list list \<Rightarrow> bool" where
  "shape4 B H W C t \<longleftrightarrow> length t = B \<and> (\<forall>img \<in> set t. shape3 H W C img)"

text \<open>Elementwise operations: a unary one on every entry, a binary one on the
  entries at the same position of two tensors.\<close>

definition un4 :: "('a \<Rightarrow> 'b) \<Rightarrow> 'a list list list list \<Rightarrow> 'b list list list list" where
  "un4 f = map (map (map (map f)))"

definition ew1 :: "(real \<Rightarrow> real \<Rightarrow> real) \<Rightarrow> tensor1 \<Rightarrow> tensor1 \<Rightarrow> tensor1" where
  "ew1 f a b = map2 f a b"

definition ew2 :: "(real \<Rightarrow> real \<Rightarrow> real) \<Rightarrow> tensor2 \<Rightarrow> tensor2 \<Rightarrow> tensor2" where
  "ew2 f a b = map2 (ew1 f) a b"

definition ew3 :: "(real \<Rightarrow> real \<Rightarrow> real) \<Rightarrow> tensor3 \<Rightarrow> tensor3 \<Rightarrow> tensor3" where
  "ew3 f a b = map2 (ew2 f) a b"

definition ew4 :: "(real \<Rightarrow> real \<Rightarrow> real) \<Rightarrow> tensor4 \<Rightarrow> tensor4 \<Rightarrow> tensor4" where
  "ew4 f a b = map2 (ew3 f) a b"

text \<open>\<open>backend.greater(pr, threshold)\<close> is a tensor of booleans and
  \<open>backend.cast(_, backend.floatx())\<close> turns True into 1 and False into 0.\<close>

definition greater :: "tensor4 \<Rightarrow> real \<Rightarrow> bool list list list list" where
  "greater x t = un4 (\<lambda>v. v > t) x"

definition cast :: "bool list list list list \<Rightarrow> tensor4" where
  "cast x = un4 (\<lambda>b. if b then 1 else 0) x"

text \<open>\<open>backend.clip(x, min_value, max_value)\<close>: the Keras backend raises
  \<open>max_value\<close> to \<open>min_value\<close> when it is smaller, then takes
  \<open>minimum(maximum(x, min_value), max_value)\<close>.\<close>

definition clip1 :: "real \<Rightarrow> real \<Rightarrow> real \<Rightarrow> real" where
  "clip1 x min_value max_value =
     (let max_value = (if max_value < min_value then min_value else max_value)
      in min (max x min_value) max_value)"

definition clip :: "tensor4 \<Rightarrow> real \<Rightarrow> real \<Rightarrow> tensor4" where
  "clip x min_value max_value = un4 (\<lambda>v. clip1 v min_value max_value) x"

text \<open>\<open>backend.log\<close> is the natural logarithm and \<open>backend.pow(x, a)\<close> the
  power with a real exponent. Both are used after clipping only, on positive entries.\<close>

definition log4 :: "tensor4 \<Rightarrow> tensor4" where
  "log4 x = un4 ln x"

definition pow4 :: "tensor4 \<Rightarrow> real \<Rightarrow> tensor4" where
  "pow4 x a = un4 (\<lambda>v. v powr a) x"

text \<open>Reduction along the leading axis of a list of vectors: the vectors are added
  position by position.\<close>

fun sum_axis0 :: "real list list \<Rightarrow> real list" where
  "sum_axis0 [] = []"
| "sum_axis0 [v] = v"
| "sum_axis0 (v # u # vs) = map2 (+) v (sum_axis0 (u # vs))"

text \<open>\<open>backend.sum(x, axis=[1, 2])\<close> on shape (B, H, W, C) gives shape (B, C);
  \<open>backend.sum(x, axis=[0, 1, 2])\<close> gives shape (C).\<close>

definition sum_axes12 :: "tensor4 \<Rightarrow> tensor2" where
  "sum_axes12 x = map (\<lambda>img. sum_axis0 (map sum_axis0 img)) x"

definition sum_axes012 :: "tensor4 \<Rightarrow> tensor1" where
  "sum_axes012 x = sum_axis0 (sum_axes12 x)"

text \<open>\<open>backend.mean(x, axis=0)\<close> on shape (B, C) gives shape (C);
  \<open>backend.mean(x)\<close> is the mean of all entries.\<close>

definition mean_axis0 :: "tensor2 \<Rightarrow> tensor1" where
  "mean_axis0 x = map (\<lambda>s. s / real (length x)) (sum_axis0 x)"

definition mean1 :: "tensor1 \<Rightarrow> real" where
  "mean1 x = sum_list x / real (length x)"

definition flat4 :: "tensor4 \<Rightarrow> real list" where
  "flat4 x = concat (concat (concat x))"

definition mean4 :: "tensor4 \<Rightarrow> real" where
  "mean4 x = sum_list (flat4 x) / real (length (flat4 x))"

text \<open>A tensor and a number: the number is applied to every entry.\<close>

definition adds1 :: "tensor1 \<Rightarrow> real \<Rightarrow> tensor1" where
  "adds1 x s = map (\<lambda>v. v + s) x"

definition adds2 :: "tensor2 \<Rightarrow> real \<Rightarrow> tensor2" where
  "adds2 x s = map (\<lambda>v. adds1 v s) x"

definition muls1 :: "real \<Rightarrow> tensor1 \<Rightarrow> tensor1" where
  "muls1 k x = map (\<lambda>v. k * v) x"

definition muls2 :: "real \<Rightarrow> tensor2 \<Rightarrow> tensor2" where
  "muls2 k x = map (muls1 k) x"

definition muls4 :: "real \<Rightarrow> tensor4 \<Rightarrow> tensor4" where
  "muls4 k x = un4 (\<lambda>v. k * v) x"

definition rsub4 :: "real \<Rightarrow> tensor4 \<Rightarrow> tensor4" where
  \<comment> \<open>\<open>k - x\<close>\<close>
  "rsub4 k x = un4 (\<lambda>v. k - v) x"

definition neg4 :: "tensor4 \<Rightarrow> tensor4" where
  "neg4 x = un4 uminus x"

text \<open>A tensor times \<open>class_weights\<close>: a number multiplies every entry, a list
  multiplies along the last axis, the class axis.\<close>

fun mulw1 :: "tensor1 \<Rightarrow> weights \<Rightarrow> tensor1" where
  "mulw1 x (Scalar k) = map (\<lambda>v. v * k) x"
| "mulw1 x (PerClass ws) = map2 (*) x ws"

definition mulw4 :: "tensor4 \<Rightarrow> weights \<Rightarrow> tensor4" where
  "mulw4 x cw = map (map (map (\<lambda>px. mulw1 px cw))) x"

section \<open>The metrics\<close>

text \<open>The keyword arguments of the source are explicit arguments here. Their
  defaults are \<open>class_weights = 1\<close>, \<open>smooth = SMOOTH\<close>, \<open>per_image = True\<close>,
  \<open>threshold = None\<close> and \<open>beta = 1\<close>.\<close>

definition SMOOTH :: real where
  "SMOOTH = 1"

text \<open>\<open>threshold\<close> is \<open>None\<close> or a number.\<close>

definition apply_threshold :: "real option \<Rightarrow> tensor4 \<Rightarrow> tensor4" where
  "apply_threshold threshold pr =
     (case threshold of None \<Rightarrow> pr | Some t \<Rightarrow> cast (greater pr t))"

text \<open>\<open>iou_score\<close>. The reduction over \<open>axes\<close> gives a tensor of shape (B, C) when
  \<open>per_image\<close> is true and of shape (C) otherwise, so the two paths are written one
  after the other.\<close>

definition iou_score :: "tensor4 \<Rightarrow> tensor4 \<Rightarrow> weights \<Rightarrow> real \<Rightarrow> bool \<Rightarrow> real option \<Rightarrow> real" where
  "iou_score gt pr class_weights smooth per_image threshold =
     (let pr = apply_threshold threshold pr in
      if per_image then
        (let intersection = sum_axes12 (ew4 (*) gt pr);
             union = ew2 (-) (sum_axes12 (ew4 (+) gt pr)) intersection;
             iou = ew2 (/) (adds2 intersection smooth) (adds2 union smooth);
             iou = mean_axis0 iou
         in mean1 (mulw1 iou class_weights))
      else
        (let intersection = sum_axes012 (ew4 (*) gt pr);
             union = ew1 (-) (sum_axes012 (ew4 (+) gt pr)) intersection;
             iou = ew1 (/) (adds1 intersection smooth) (adds1 union smooth)
         in mean1 (mulw1 iou class_weights)))"

text \<open>\<open>f_score\<close>.\<close>

definition f_score :: "tensor4 \<Rightarrow> tensor4 \<Rightarrow> weights \<Rightarrow> real \<Rightarrow> real \<Rightarrow> bool \<Rightarrow> real option \<Rightarrow> real" where
  "f_score gt pr class_weights beta smooth per_image threshold =
     (let pr = apply_threshold threshold pr in
      if per_image then
        (let tp = sum_axes12 (ew4 (*) gt pr);
             fp = ew2 (-) (sum_axes12 pr) tp;
             fn = ew2 (-) (sum_axes12 gt) tp;
             score = ew2 (/) (adds2 (muls2 (1 + beta\<^sup>2) tp) smooth)
                       (adds2 (ew2 (+) (ew2 (+) (muls2 (1 + beta\<^sup>2) tp) (muls2 (beta\<^sup>2) fn)) fp) smooth);
             score = mean_axis0 score
         in mean1 (mulw1 score class_weights))
      else
        (let tp = sum_axes012 (ew4 (*) gt pr);
             fp = ew1 (-) (sum_axes012 pr) tp;
             fn = ew1 (-) (sum_axes012 gt) tp;
             score = ew1 (/) (adds1 (muls1 (1 + beta\<^sup>2) tp) smooth)
                       (adds1 (ew1 (+) (ew1 (+) (muls1 (1 + beta\<^sup>2) tp) (muls1 (beta\<^sup>2) fn)) fp) smooth)
         in mean1 (mulw1 score class_weights)))"

section \<open>The losses\<close>

text \<open>The losses read two settings of the backend: \<open>backend.epsilon()\<close>, the fuzz
  factor (1e-7 unless configured otherwise), and \<open>backend.image_data_format()\<close>.\<close>

record backend =
  epsilon :: real
  image_data_format :: data_format

text \<open>\<open>categorical_crossentropy\<close> divides by a sum that can be zero. There the
  backend does not fail: it goes on with an infinity or with NaN. The values of this
  loss are therefore real numbers extended by the two infinities and NaN, and the
  operations treat them as IEEE arithmetic does; on finite values they are the exact
  real operations.\<close>

datatype xreal = Fin real | PInf | NInf | NaN

text \<open>A real number divided by a real number: by zero a positive number gives
  infinity, a negative one minus infinity and zero gives NaN.\<close>

definition xdiv :: "real \<Rightarrow> real \<Rightarrow> xreal" where
  "xdiv a s =
     (if s \<noteq> 0 then Fin (a / s) else if 0 < a then PInf else if a < 0 then NInf else NaN)"

text \<open>\<open>backend.clip\<close> on an extended value: \<open>minimum(maximum(x, min_value),
  max_value)\<close> brings an infinity to the bound on its side and leaves NaN as it is.\<close>

definition xclip1 :: "xreal \<Rightarrow> real \<Rightarrow> real \<Rightarrow> xreal" where
  "xclip1 x min_value max_value =
     (let max_value = (if max_value < min_value then min_value else max_value)
      in case x of
           Fin v \<Rightarrow> Fin (min (max v min_value) max_value)
         | PInf \<Rightarrow> Fin max_value
         | NInf \<Rightarrow> Fin min_value
         | NaN \<Rightarrow> NaN)"

text \<open>\<open>backend.log\<close> on an extended value: minus infinity at 0, NaN below 0.\<close>

fun xlog :: "xreal \<Rightarrow> xreal" where
  "xlog (Fin v) = (if 0 < v then Fin (ln v) else if v = 0 then NInf else NaN)"
| "xlog PInf = PInf"
| "xlog NInf = NaN"
| "xlog NaN = NaN"

text \<open>An infinity of the sign of \<open>a\<close>, or of the opposite sign; NaN for \<open>a = 0\<close>.\<close>

definition signed_inf :: "real \<Rightarrow> xreal" where
  "signed_inf a = (if 0 < a then PInf else if a < 0 then NInf else NaN)"

fun xtimes :: "xreal \<Rightarrow> xreal \<Rightarrow> xreal" where
  "xtimes NaN y = NaN"
| "xtimes x NaN = NaN"
| "xtimes (Fin a) (Fin b) = Fin (a * b)"
| "xtimes (Fin a) PInf = signed_inf a"
| "xtimes (Fin a) NInf = signed_inf (- a)"
| "xtimes PInf (Fin b) = signed_inf b"
| "xtimes NInf (Fin b) = signed_inf (- b)"
| "xtimes PInf PInf = PInf"
| "xtimes PInf NInf = NInf"
| "xtimes NInf PInf = NInf"
| "xtimes NInf NInf = PInf"

fun xplus :: "xreal \<Rightarrow> xreal \<Rightarrow> xreal" where
  "xplus NaN y = NaN"
| "xplus x NaN = NaN"
| "xplus (Fin a) (Fin b) = Fin (a + b)"
| "xplus PInf NInf = NaN"
| "xplus NInf PInf = NaN"
| "xplus PInf y = PInf"
| "xplus x PInf = PInf"
| "xplus NInf y = NInf"
| "xplus x NInf = NInf"

fun xneg :: "xreal \<Rightarrow> xreal" where
  "xneg (Fin a) = Fin (- a)"
| "xneg PInf = NInf"
| "xneg NInf = PInf"
| "xneg NaN = NaN"

type_synonym xtensor4 = "xreal list list list list"

text \<open>A binary operation on the entries at the same position of two tensors whose
  entries may be of different types.\<close>

definition bin1 :: "('a \<Rightarrow> 'b \<Rightarrow> 'c) \<Rightarrow> 'a list \<Rightarrow> 'b list \<Rightarrow> 'c list" where
  "bin1 f a b = map2 f a b"

definition bin2 :: "('a \<Rightarrow> 'b \<Rightarrow> 'c) \<Rightarrow> 'a list list \<Rightarrow> 'b list list \<Rightarrow> 'c list list" where
  "bin2 f a b = map2 (bin1 f) a b"

definition bin3 ::
  "('a \<Rightarrow> 'b \<Rightarrow> 'c) \<Rightarrow> 'a list list list \<Rightarrow> 'b list list list \<Rightarrow> 'c list list list" where
  "bin3 f a b = map2 (bin2 f) a b"

definition bin4 ::
  "('a \<Rightarrow> 'b \<Rightarrow> 'c) \<Rightarrow> 'a list list list list \<Rightarrow> 'b list list list list
     \<Rightarrow> 'c list list list list" where
  "bin4 f a b = map2 (bin3 f) a b"

text \<open>A tensor of real numbers as a tensor of extended values.\<close>

definition fin4 :: "tensor4 \<Rightarrow> xtensor4" where
  "fin4 x = un4 Fin x"

definition xclip :: "xtensor4 \<Rightarrow> real \<Rightarrow> real \<Rightarrow> xtensor4" where
  "xclip x min_value max_value = un4 (\<lambda>v. xclip1 v min_value max_value) x"

definition xlog4 :: "xtensor4 \<Rightarrow> xtensor4" where
  "xlog4 x = un4 xlog x"

text \<open>An extended tensor times \<open>class_weights\<close>, along the last axis.\<close>

fun xmulw1 :: "xreal list \<Rightarrow> weights \<Rightarrow> xreal list" where
  "xmulw1 x (Scalar k) = map (\<lambda>v. xtimes v (Fin k)) x"
| "xmulw1 x (PerClass ws) = map2 (\<lambda>v w. xtimes v (Fin w)) x ws"

definition xmulw4 :: "xtensor4 \<Rightarrow> weights \<Rightarrow> xtensor4" where
  "xmulw4 x cw = map (map (map (\<lambda>px. xmulw1 px cw))) x"

text \<open>\<open>backend.mean(x)\<close> of an extended tensor: the sum of all entries divided by
  their number.\<close>

definition xsum_list :: "xreal list \<Rightarrow> xreal" where
  "xsum_list xs = foldr xplus xs (Fin 0)"

definition xdiv_count :: "xreal \<Rightarrow> nat \<Rightarrow> xreal" where
  "xdiv_count x n =
     (case x of Fin s \<Rightarrow> xdiv s (real n) | PInf \<Rightarrow> PInf | NInf \<Rightarrow> NInf | NaN \<Rightarrow> NaN)"

definition xflat4 :: "xtensor4 \<Rightarrow> xreal list" where
  "xflat4 x = concat (concat (concat x))"

definition xmean4 :: "xtensor4 \<Rightarrow> xreal" where
  "xmean4 x = xdiv_count (xsum_list (xflat4 x)) (length (xflat4 x))"

text \<open>\<open>pr /= backend.sum(pr, axis=axis, keepdims=True)\<close>: every entry is divided by
  the sum of the entries that differ from it in the position along \<open>axis\<close> only.
  With \<open>axis = 3\<close> these are the entries of its pixel.\<close>

definition div_sum_axis3 :: "tensor4 \<Rightarrow> xtensor4" where
  "div_sum_axis3 pr = map (map (map (\<lambda>px. map (\<lambda>v. xdiv v (sum_list px)) px))) pr"

text \<open>With \<open>axis = 1\<close> the tensor is read as (B, C, H, W): the C planes of an image
  are added position by position and every plane is divided by this sum.\<close>

fun sum_planes :: "tensor2 list \<Rightarrow> tensor2" where
  "sum_planes [] = []"
| "sum_planes [m] = m"
| "sum_planes (m # n # ms) = ew2 (+) m (sum_planes (n # ms))"

definition div_sum_axis1 :: "tensor4 \<Rightarrow> xtensor4" where
  "div_sum_axis1 pr = map (\<lambda>img. map (\<lambda>plane. bin2 xdiv plane (sum_planes img)) img) pr"

definition categorical_crossentropy :: "tensor4 \<Rightarrow> tensor4 \<Rightarrow> weights \<Rightarrow> backend \<Rightarrow> xreal" where
  "categorical_crossentropy gt pr class_weights backend =
     (let pr = (if image_data_format backend = ChannelsLast
                then div_sum_axis3 pr else div_sum_axis1 pr);
          pr = xclip pr (epsilon backend) (1 - epsilon backend);
          output = xmulw4 (bin4 xtimes (fin4 gt) (xlog4 pr)) class_weights
      in xneg (xmean4 output))"

text \<open>The focal loss divides by nothing and takes the logarithm of clipped values
  only, so it stays in the real numbers when \<open>0 < epsilon < 1\<close>.\<close>

definition categorical_focal_loss :: "tensor4 \<Rightarrow> tensor4 \<Rightarrow> real \<Rightarrow> real \<Rightarrow> backend \<Rightarrow> real" where
  "categorical_focal_loss gt pr gamma alpha backend =
     (let pr = clip pr (epsilon backend) (1 - epsilon backend);
          cross_entropy = ew4 (*) (neg4 gt) (log4 pr);
          weight = ew4 (*) (muls4 alpha gt) (pow4 (rsub4 1 pr) gamma);
          loss = ew4 (*) weight cross_entropy
      in mean4 loss)"

text \<open>\<open>focal_loss\<close> adds the loss of the classes and the loss of their complements.
  (\<open>bianary_crossentropy\<close> only forwards to \<open>backend.binary_crossentropy\<close> and is not
  modelled.)\<close>

definition focal_loss :: "tensor4 \<Rightarrow> tensor4 \<Rightarrow> real \<Rightarrow> real \<Rightarrow> backend \<Rightarrow> real" where
  "focal_loss gt pr gamma alpha backend =
     (let l1 = categorical_focal_loss gt pr gamma alpha backend;
          l2 = categorical_focal_loss (rsub4 1 gt) (rsub4 1 pr) gamma alpha backend
      in l1 + l2)"

section \<open>Tensors given by their entries\<close>

text \<open>\<open>tab4 B H W C f\<close> is the tensor of shape (B, H, W, C) whose entry at
  \<open>(b, h, w, c)\<close> is \<open>f b h w c\<close>. Every tensor of that shape is of this form, and
  the backend operations act on the entries.\<close>

definition tab1 :: "nat \<Rightarrow> (nat \<Rightarrow> 'a) \<Rightarrow> 'a list" where
  "tab1 C f = map f [0..<C]"

definition tab2 :: "nat \<Rightarrow> nat \<Rightarrow> (nat \<Rightarrow> nat \<Rightarrow> 'a) \<Rightarrow> 'a list list" where
  "tab2 B C f = tab1 B (\<lambda>b. tab1 C (f b))"

definition tab3 :: "nat \<Rightarrow> nat \<Rightarrow> nat \<Rightarrow> (nat \<Rightarrow> nat \<Rightarrow> nat \<Rightarrow> 'a) \<Rightarrow> 'a list list list" where
  "tab3 H W C f = tab1 H (\<lambda>h. tab2 W C (f h))"

definition tab4 :: "nat \<Rightarrow> nat \<Rightarrow> nat \<Rightarrow> nat \<Rightarrow> (nat \<Rightarrow> nat \<Rightarrow> nat \<Rightarrow> nat \<Rightarrow> 'a) \<Rightarrow> 'a list list list list" where
  "tab4 B H W C f = tab1 B (\<lambda>b. tab3 H W C (f b))"

text \<open>The weight of class \<open>c\<close>.\<close>

fun weight_of :: "weights \<Rightarrow> nat \<Rightarrow> real" where
  "weight_of (Scalar k) c = k"
| "weight_of (PerClass ws) c = ws ! c"

text \<open>\<open>class_weights\<close> fits C classes when it is a number or a list of length C.\<close>

fun weights_ok :: "nat \<Rightarrow> weights \<Rightarrow> bool" where
  "weights_ok C (Scalar k) = True"
| "weights_ok C (PerClass ws) = (length ws = C)"

section \<open>The value before the class weights\<close>

text \<open>The value of the local variable \<open>iou\<close> of \<open>iou_score\<close>, and of \<open>score\<close> of
  \<open>f_score\<close>, when the line \<open># weighted mean per class\<close> is reached: a tensor of
  shape (C), one score for each class.\<close>

definition iou_channels :: "tensor4 \<Rightarrow> tensor4 \<Rightarrow> real \<Rightarrow> bool \<Rightarrow> real option \<Rightarrow> tensor1" where
  "iou_channels gt pr smooth per_image threshold =
     (let pr = apply_threshold threshold pr in
      if per_image then
        (let intersection = sum_axes12 (ew4 (*) gt pr);
             union = ew2 (-) (sum_axes12 (ew4 (+) gt pr)) intersection;
             iou = ew2 (/) (adds2 intersection smooth) (adds2 union smooth)
         in mean_axis0 iou)
      else
        (let intersection = sum_axes012 (ew4 (*) gt pr);
             union = ew1 (-) (sum_axes012 (ew4 (+) gt pr)) intersection
         in ew1 (/) (adds1 intersection smooth) (adds1 union smooth)))"

definition f_channels :: "tensor4 \<Rightarrow> tensor4 \<Rightarrow> real \<Rightarrow> real \<Rightarrow> bool \<Rightarrow> real option \<Rightarrow> tensor1" where
  "f_channels gt pr beta smooth per_image threshold =
     (let pr = apply_threshold threshold pr in
      if per_image then
        (let tp = sum_axes12 (ew4 (*) gt pr);
             fp = ew2 (-) (sum_axes12 pr) tp;
             fn = ew2 (-) (sum_axes12 gt) tp;
             score = ew2 (/) (adds2 (muls2 (1 + beta\<^sup>2) tp) smooth)
                       (adds2 (ew2 (+) (ew2 (+) (muls2 (1 + beta\<^sup>2) tp) (muls2 (beta\<^sup>2) fn)) fp) smooth)
         in mean_axis0 score)
      else
        (let tp = sum_axes012 (ew4 (*) gt pr);
             fp = ew1 (-) (sum_axes012 pr) tp;
             fn = ew1 (-) (sum_axes012 gt) tp
         in ew1 (/) (adds1 (muls1 (1 + beta\<^sup>2) tp) smooth)
              (adds1 (ew1 (+) (ew1 (+) (muls1 (1 + beta\<^sup>2) tp) (muls1 (beta\<^sup>2) fn)) fp) smooth)))"

section \<open>The formulas of the specification\<close>

text \<open>The specification states each metric as a formula on the entries of the
  tensors. The definitions of this section follow its words, with the sums written
  over the indices; \<open>B\<close>, \<open>H\<close>, \<open>W\<close> and \<open>C\<close> are the dimensions.\<close>

text \<open>"threshold parameter binarizes predictions at the given cut before scoring":
  an entry becomes 1 when it is strictly greater than the cut and 0 otherwise.\<close>

definition binarize1 :: "real \<Rightarrow> real \<Rightarrow> real" where
  "binarize1 t x = (if x > t then 1 else 0)"

definition binarize :: "real \<Rightarrow> tensor4 \<Rightarrow> tensor4" where
  "binarize t pr = map (map (map (map (binarize1 t)))) pr"

definition thresholded :: "real option \<Rightarrow> real \<Rightarrow> real" where
  "thresholded threshold x = (case threshold of None \<Rightarrow> x | Some t \<Rightarrow> binarize1 t x)"

text \<open>"IoU score: intersection = sum(gt * pr) over reduction axes; union =
  sum(gt + pr) - intersection; score = (intersection + smooth) / (union + smooth);
  optional thresholding before computation; mean over batch if per-image".
  \<open>iou_class_spec\<close> is the score of class \<open>c\<close> after the mean over the batch.\<close>

definition iou_class_spec ::
  "nat \<Rightarrow> nat \<Rightarrow> nat \<Rightarrow> tensor4 \<Rightarrow> tensor4 \<Rightarrow> real \<Rightarrow> bool \<Rightarrow> real option \<Rightarrow> nat \<Rightarrow> real" where
  "iou_class_spec B H W gt pr smooth per_image threshold c =
     (let g = (\<lambda>b h w. gt ! b ! h ! w ! c);
          p = (\<lambda>b h w. thresholded threshold (pr ! b ! h ! w ! c))
      in if per_image then
           (let intersection = (\<lambda>b. \<Sum>h<H. \<Sum>w<W. g b h w * p b h w);
                union = (\<lambda>b. (\<Sum>h<H. \<Sum>w<W. g b h w + p b h w) - intersection b);
                score = (\<lambda>b. (intersection b + smooth) / (union b + smooth))
            in (\<Sum>b<B. score b) / real B)
         else
           (let intersection = (\<Sum>b<B. \<Sum>h<H. \<Sum>w<W. g b h w * p b h w);
                union = (\<Sum>b<B. \<Sum>h<H. \<Sum>w<W. g b h w + p b h w) - intersection
            in (intersection + smooth) / (union + smooth)))"

text \<open>"then weighted mean over classes".\<close>

definition iou_spec ::
  "nat \<Rightarrow> nat \<Rightarrow> nat \<Rightarrow> nat \<Rightarrow> tensor4 \<Rightarrow> tensor4 \<Rightarrow> weights \<Rightarrow> real \<Rightarrow> bool \<Rightarrow> real option \<Rightarrow> real" where
  "iou_spec B H W C gt pr class_weights smooth per_image threshold =
     (\<Sum>c<C. iou_class_spec B H W gt pr smooth per_image threshold c * weight_of class_weights c)
       / real C"

text \<open>"F-beta score: true positives = sum(gt * pr); false positives = sum(pr) - tp;
  false negatives = sum(gt) - tp; score = ((1 + beta^2) * tp + smooth) /
  ((1 + beta^2) * tp + beta^2 * fn + fp + smooth)".\<close>

definition f_class_spec ::
  "nat \<Rightarrow> nat \<Rightarrow> nat \<Rightarrow> tensor4 \<Rightarrow> tensor4 \<Rightarrow> real \<Rightarrow> real \<Rightarrow> bool \<Rightarrow> real option \<Rightarrow> nat \<Rightarrow> real" where
  "f_class_spec B H W gt pr beta smooth per_image threshold c =
     (let g = (\<lambda>b h w. gt ! b ! h ! w ! c);
          p = (\<lambda>b h w. thresholded threshold (pr ! b ! h ! w ! c))
      in if per_image then
           (let tp = (\<lambda>b. \<Sum>h<H. \<Sum>w<W. g b h w * p b h w);
                fp = (\<lambda>b. (\<Sum>h<H. \<Sum>w<W. p b h w) - tp b);
                fn = (\<lambda>b. (\<Sum>h<H. \<Sum>w<W. g b h w) - tp b);
                score = (\<lambda>b. ((1 + beta\<^sup>2) * tp b + smooth)
                              / ((1 + beta\<^sup>2) * tp b + beta\<^sup>2 * fn b + fp b + smooth))
            in (\<Sum>b<B. score b) / real B)
         else
           (let tp = (\<Sum>b<B. \<Sum>h<H. \<Sum>w<W. g b h w * p b h w);
                fp = (\<Sum>b<B. \<Sum>h<H. \<Sum>w<W. p b h w) - tp;
                fn = (\<Sum>b<B. \<Sum>h<H. \<Sum>w<W. g b h w) - tp
            in ((1 + beta\<^sup>2) * tp + smooth)
                 / ((1 + beta\<^sup>2) * tp + beta\<^sup>2 * fn + fp + smooth)))"

definition f_spec ::
  "nat \<Rightarrow> nat \<Rightarrow> nat \<Rightarrow> nat \<Rightarrow> tensor4 \<Rightarrow> tensor4 \<Rightarrow> weights \<Rightarrow> real \<Rightarrow> real \<Rightarrow> bool \<Rightarrow> real option \<Rightarrow> real" where
  "f_spec B H W C gt pr class_weights beta smooth per_image threshold =
     (\<Sum>c<C. f_class_spec B H W gt pr beta smooth per_image threshold c * weight_of class_weights c)
       / real C"

text \<open>The tensor of shape (B, H, W, C) filled with 1s.\<close>

definition ones4 :: "nat \<Rightarrow> nat \<Rightarrow> nat \<Rightarrow> nat \<Rightarrow> tensor4" where
  "ones4 B H W C = replicate B (replicate H (replicate W (replicate C 1)))"

text \<open>\<open>gt\<close> and \<open>pr\<close> are disjoint when the elementwise product \<open>gt * pr\<close> is zero
  everywhere.\<close>

definition disjoint4 :: "tensor4 \<Rightarrow> tensor4 \<Rightarrow> bool" where
  "disjoint4 gt pr \<longleftrightarrow> (\<forall>x \<in> set (flat4 (ew4 (*) gt pr)). x = 0)"

text \<open>"union = sum(gt + pr) - intersection" over the block of image \<open>b\<close> and class
  \<open>c\<close> when \<open>per_image\<close> is true, over the block of class \<open>c\<close> otherwise.\<close>

definition union_spec :: "nat \<Rightarrow> nat \<Rightarrow> nat \<Rightarrow> tensor4 \<Rightarrow> tensor4 \<Rightarrow> bool \<Rightarrow> nat \<Rightarrow> nat \<Rightarrow> real" where
  "union_spec B H W gt pr per_image b c =
     (let g = (\<lambda>b h w. gt ! b ! h ! w ! c);
          p = (\<lambda>b h w. pr ! b ! h ! w ! c)
      in if per_image
         then (\<Sum>h<H. \<Sum>w<W. g b h w + p b h w) - (\<Sum>h<H. \<Sum>w<W. g b h w * p b h w)
         else (\<Sum>b<B. \<Sum>h<H. \<Sum>w<W. g b h w + p b h w)
                - (\<Sum>b<B. \<Sum>h<H. \<Sum>w<W. g b h w * p b h w))"

text \<open>"For disjoint gt/pr (no overlap), IoU -> smooth / (union + smooth)": the mean
  over the images and the classes of \<open>smooth / (union + smooth)\<close>.\<close>

definition disjoint_iou_spec ::
  "nat \<Rightarrow> nat \<Rightarrow> nat \<Rightarrow> nat \<Rightarrow> tensor4 \<Rightarrow> tensor4 \<Rightarrow> real \<Rightarrow> bool \<Rightarrow> real" where
  "disjoint_iou_spec B H W C gt pr smooth per_image =
     (if per_image
      then (\<Sum>c<C. (\<Sum>b<B. smooth / (union_spec B H W gt pr True b c + smooth)) / real B) / real C
      else (\<Sum>c<C. smooth / (union_spec B H W gt pr False 0 c + smooth)) / real C)"

text \<open>The sum of \<open>f\<close> over all positions of a tensor of shape (B, H, W, C).\<close>

definition sum4 :: "nat \<Rightarrow> nat \<Rightarrow> nat \<Rightarrow> nat \<Rightarrow> (nat \<Rightarrow> nat \<Rightarrow> nat \<Rightarrow> nat \<Rightarrow> real) \<Rightarrow> real" where
  "sum4 B H W C f = (\<Sum>b<B. \<Sum>h<H. \<Sum>w<W. \<Sum>c<C. f b h w c)"

text \<open>"Categorical focal loss: -mean(alpha * gt * (1 - pr)^gamma * log(pr)), with
  clipping": \<open>pr\<close> is clipped to [eps, 1 - eps] first.\<close>

definition categorical_focal_loss_spec ::
  "nat \<Rightarrow> nat \<Rightarrow> nat \<Rightarrow> nat \<Rightarrow> tensor4 \<Rightarrow> tensor4 \<Rightarrow> real \<Rightarrow> real \<Rightarrow> real \<Rightarrow> real" where
  "categorical_focal_loss_spec B H W C gt pr gamma alpha eps =
     - (sum4 B H W C (\<lambda>b h w c.
          (let g = gt ! b ! h ! w ! c; p = clip1 (pr ! b ! h ! w ! c) eps (1 - eps)
           in alpha * g * (1 - p) powr gamma * ln p))
        / real (B * H * W * C))"

text \<open>"Categorical cross-entropy: normalize predictions to sum to 1 along the channel
  axis, clip to avoid log(0), compute -mean(gt * log(pr) * weights)". The dimensions
  \<open>(d1, d2, d3, d4)\<close> are (B, H, W, C) with the channels last and (B, C, H, W) with
  the channels first; \<open>channel_sum\<close> is the sum along the channel axis through the
  position \<open>(i, j, k, l)\<close>. The weights multiply along the last axis.\<close>

definition channel_sum :: "data_format \<Rightarrow> nat \<Rightarrow> nat \<Rightarrow> tensor4 \<Rightarrow> nat \<Rightarrow> nat \<Rightarrow> nat \<Rightarrow> nat \<Rightarrow> real" where
  "channel_sum fmt d2 d4 pr i j k l =
     (if fmt = ChannelsLast then (\<Sum>c<d4. pr ! i ! j ! k ! c) else (\<Sum>c<d2. pr ! i ! c ! k ! l))"

definition normalized_spec :: "data_format \<Rightarrow> nat \<Rightarrow> nat \<Rightarrow> tensor4 \<Rightarrow> nat \<Rightarrow> nat \<Rightarrow> nat \<Rightarrow> nat \<Rightarrow> real" where
  "normalized_spec fmt d2 d4 pr i j k l = pr ! i ! j ! k ! l / channel_sum fmt d2 d4 pr i j k l"

definition cce_spec ::
  "data_format \<Rightarrow> nat \<Rightarrow> nat \<Rightarrow> nat \<Rightarrow> nat \<Rightarrow> tensor4 \<Rightarrow> tensor4 \<Rightarrow> weights \<Rightarrow> real \<Rightarrow> real" where
  "cce_spec fmt d1 d2 d3 d4 gt pr class_weights eps =
     - (sum4 d1 d2 d3 d4 (\<lambda>i j k l.
          (let normalized = normalized_spec fmt d2 d4 pr i j k l;
               clipped = clip1 normalized eps (1 - eps)
           in gt ! i ! j ! k ! l * ln clipped * weight_of class_weights l))
        / real (d1 * d2 * d3 * d4))"

text \<open>The sum along the channel axis is not zero at any position.\<close>

definition channel_sums_nonzero ::
  "data_format \<Rightarrow> nat \<Rightarrow> nat \<Rightarrow> nat \<Rightarrow> nat \<Rightarrow> tensor4 \<Rightarrow> bool" where
  "channel_sums_nonzero fmt d1 d2 d3 d4 pr \<longleftrightarrow>
     (\<forall>i<d1. \<forall>j<d2. \<forall>k<d3. \<forall>l<d4. channel_sum fmt d2 d4 pr i j k l \<noteq> 0)"

section \<open>The focal loss entry by entry\<close>

text \<open>The entry of the tensor \<open>loss\<close> of \<open>categorical_focal_loss\<close> at a position
  where \<open>gt\<close> holds \<open>g\<close> and \<open>pr\<close> holds \<open>p\<close>, computed as the source does.\<close>

definition focal_entry :: "real \<Rightarrow> real \<Rightarrow> real \<Rightarrow> real \<Rightarrow> real \<Rightarrow> real" where
  "focal_entry alpha gamma eps g p =
     (let p = clip1 p eps (1 - eps);
          cross_entropy = - g * ln p;
          weight = alpha * g * (1 - p) powr gamma
      in weight * cross_entropy)"

text \<open>The entries of the two calls of \<open>focal_loss\<close> at one position, added.\<close>

definition focal_pair :: "real \<Rightarrow> real \<Rightarrow> real \<Rightarrow> real \<Rightarrow> real \<Rightarrow> real" where
  "focal_pair alpha gamma eps g p =
     focal_entry alpha gamma eps g p + focal_entry alpha gamma eps (1 - g) (1 - p)"

text \<open>The values of a tensor lie in [0, 1]; they are 0 or 1.\<close>

definition unit_range4 :: "tensor4 \<Rightarrow> bool" where
  "unit_range4 t \<longleftrightarrow> (\<forall>x \<in> set (flat4 t). 0 \<le> x \<and> x \<le> 1)"

definition binary4 :: "tensor4 \<Rightarrow> bool" where
  "binary4 t \<longleftrightarrow> (\<forall>x \<in> set (flat4 t). x = 0 \<or> x = 1)"

section \<open>Basic facts\<close>

lemma length_tab1 [simp]: "length (tab1 n f) = n"
  by (simp add: tab1_def)

lemma nth_tab1 [simp]: "i < n \<Longrightarrow> tab1 n f ! i = f i"
  by (simp add: tab1_def)

lemma tab1_cong: "(\<And>i. i < n \<Longrightarrow> f i = g i) \<Longrightarrow> tab1 n f = tab1 n g"
  by (simp add: tab1_def)

lemma tab1_nth: "length xs = n \<Longrightarrow> tab1 n (\<lambda>i. xs ! i) = xs"
  unfolding tab1_def using map_nth [of xs] by simp

lemma shape2_tab: "shape2 B C t \<Longrightarrow> t = tab2 B C (\<lambda>b c. t ! b ! c)"
proof -
  assume s: "shape2 B C t"
  have "tab1 B (\<lambda>b. tab1 C (\<lambda>c. t ! b ! c)) = tab1 B (\<lambda>b. t ! b)"
  proof (rule tab1_cong)
    fix b assume "b < B"
    with s have "length (t ! b) = C" by (simp add: shape2_def)
    then show "tab1 C (\<lambda>c. t ! b ! c) = t ! b" by (rule tab1_nth)
  qed
  also have "\<dots> = t" using s by (simp add: shape2_def tab1_nth)
  finally show ?thesis by (simp add: tab2_def)
qed

lemma shape3_tab: "shape3 H W C t \<Longrightarrow> t = tab3 H W C (\<lambda>h w c. t ! h ! w ! c)"
proof -
  assume s: "shape3 H W C t"
  have "tab1 H (\<lambda>h. tab2 W C (\<lambda>w c. t ! h ! w ! c)) = tab1 H (\<lambda>h. t ! h)"
  proof (rule tab1_cong)
    fix h assume "h < H"
    with s have "shape2 W C (t ! h)" by (simp add: shape3_def)
    then show "tab2 W C (\<lambda>w c. t ! h ! w ! c) = t ! h" using shape2_tab by metis
  qed
  also have "\<dots> = t" using s by (simp add: shape3_def tab1_nth)
  finally show ?thesis by (simp add: tab3_def)
qed

lemma shape4_tab: "shape4 B H W C t \<Longrightarrow> t = tab4 B H W C (\<lambda>b h w c. t ! b ! h ! w ! c)"
proof -
  assume s: "shape4 B H W C t"
  have "tab1 B (\<lambda>b. tab3 H W C (\<lambda>h w c. t ! b ! h ! w ! c)) = tab1 B (\<lambda>b. t ! b)"
  proof (rule tab1_cong)
    fix b assume "b < B"
    with s have "shape3 H W C (t ! b)" by (simp add: shape4_def)
    then show "tab3 H W C (\<lambda>h w c. t ! b ! h ! w ! c) = t ! b" using shape3_tab by metis
  qed
  also have "\<dots> = t" using s by (simp add: shape4_def tab1_nth)
  finally show ?thesis by (simp add: tab4_def)
qed

lemma nth_tab4 [simp]:
  "b < B \<Longrightarrow> h < H \<Longrightarrow> w < W \<Longrightarrow> c < C \<Longrightarrow> tab4 B H W C f ! b ! h ! w ! c = f b h w c"
  by (simp add: tab4_def tab3_def tab2_def)

lemma shape4_tab4 [simp]: "shape4 B H W C (tab4 B H W C f)"
  by (auto simp add: shape4_def shape3_def shape2_def tab4_def tab3_def tab2_def tab1_def)

lemma map_tab1: "map g (tab1 n f) = tab1 n (\<lambda>i. g (f i))"
  by (simp add: tab1_def)

lemma sum_list_tab1: "sum_list (tab1 n f) = (\<Sum>i<n. f i)"
  unfolding tab1_def by (simp add: interv_sum_list_conv_sum_set_nat atLeast_upt)

lemma ew1_tab: "ew1 f (tab1 n a) (tab1 n b) = tab1 n (\<lambda>i. f (a i) (b i))"
  by (simp add: ew1_def tab1_def map2_map_map)

lemma ew2_tab: "ew2 f (tab2 B C a) (tab2 B C b) = tab2 B C (\<lambda>i j. f (a i j) (b i j))"
  by (simp add: ew2_def tab2_def tab1_def map2_map_map ew1_tab [unfolded tab1_def])

lemma ew3_tab:
  "ew3 f (tab3 H W C a) (tab3 H W C b) = tab3 H W C (\<lambda>h w c. f (a h w c) (b h w c))"
  by (simp add: ew3_def tab3_def tab1_def map2_map_map ew2_tab)

lemma ew4_tab:
  "ew4 f (tab4 B H W C a) (tab4 B H W C b) = tab4 B H W C (\<lambda>b' h w c. f (a b' h w c) (b b' h w c))"
  by (simp add: ew4_def tab4_def tab1_def map2_map_map ew3_tab)

lemma un4_tab: "un4 f (tab4 B H W C a) = tab4 B H W C (\<lambda>b h w c. f (a b h w c))"
  by (simp add: un4_def tab4_def tab3_def tab2_def tab1_def)

lemma sum_axis0_rows:
  "rows \<noteq> [] \<Longrightarrow> \<forall>r \<in> set rows. length r = C
     \<Longrightarrow> sum_axis0 rows = tab1 C (\<lambda>c. \<Sum>r\<leftarrow>rows. r ! c)"
proof (induction rows rule: sum_axis0.induct)
  case 1
  then show ?case by simp
next
  case (2 v)
  then show ?case by (simp add: tab1_nth)
next
  case (3 v u vs)
  then have ih: "sum_axis0 (u # vs) = tab1 C (\<lambda>c. \<Sum>r\<leftarrow>u # vs. r ! c)" by simp
  from 3 have v: "v = tab1 C (\<lambda>c. v ! c)" by (simp add: tab1_nth)
  have "sum_axis0 (v # u # vs) = ew1 (+) v (sum_axis0 (u # vs))"
    by (simp add: ew1_def)
  also have "\<dots> = ew1 (+) (tab1 C (\<lambda>c. v ! c)) (tab1 C (\<lambda>c. \<Sum>r\<leftarrow>u # vs. r ! c))"
    using ih v by simp
  also have "\<dots> = tab1 C (\<lambda>c. \<Sum>r\<leftarrow>v # u # vs. r ! c)"
    by (simp add: ew1_tab)
  finally show ?case .
qed

lemma sum_axis0_tab2:
  assumes "0 < n"
  shows "sum_axis0 (tab2 n C f) = tab1 C (\<lambda>c. \<Sum>i<n. f i c)"
proof -
  have ne: "tab2 n C f \<noteq> []" using assms by (auto simp add: tab2_def tab1_def)
  have len: "\<forall>r \<in> set (tab2 n C f). length r = C"
    by (auto simp add: tab2_def tab1_def)
  have "sum_axis0 (tab2 n C f) = tab1 C (\<lambda>c. \<Sum>r\<leftarrow>tab2 n C f. r ! c)"
    using sum_axis0_rows [OF ne len] .
  also have "\<dots> = tab1 C (\<lambda>c. \<Sum>i<n. f i c)"
  proof (rule tab1_cong)
    fix c assume c: "c < C"
    have "(\<Sum>r\<leftarrow>tab2 n C f. r ! c) = sum_list (tab1 n (\<lambda>i. tab1 C (f i) ! c))"
      by (simp add: tab2_def map_tab1)
    also have "\<dots> = (\<Sum>i<n. tab1 C (f i) ! c)" by (rule sum_list_tab1)
    also have "\<dots> = (\<Sum>i<n. f i c)" using c by simp
    finally show "(\<Sum>r\<leftarrow>tab2 n C f. r ! c) = (\<Sum>i<n. f i c)" .
  qed
  finally show ?thesis .
qed

lemma sum_axes12_tab:
  assumes "0 < H" "0 < W"
  shows "sum_axes12 (tab4 B H W C f) = tab2 B C (\<lambda>b c. \<Sum>h<H. \<Sum>w<W. f b h w c)"
proof -
  have img: "sum_axis0 (map sum_axis0 (tab3 H W C g)) = tab1 C (\<lambda>c. \<Sum>h<H. \<Sum>w<W. g h w c)"
    for g :: "nat \<Rightarrow> nat \<Rightarrow> nat \<Rightarrow> real"
  proof -
    have "map sum_axis0 (tab3 H W C g) = tab2 H C (\<lambda>h c. \<Sum>w<W. g h w c)"
      unfolding tab3_def map_tab1 sum_axis0_tab2 [OF assms(2)] by (simp add: tab2_def)
    then show ?thesis by (simp add: sum_axis0_tab2 [OF assms(1)])
  qed
  show ?thesis
    by (simp add: sum_axes12_def tab4_def map_tab1 img tab2_def)
qed

lemma sum_axes012_tab:
  assumes "0 < B" "0 < H" "0 < W"
  shows "sum_axes012 (tab4 B H W C f) = tab1 C (\<lambda>c. \<Sum>b<B. \<Sum>h<H. \<Sum>w<W. f b h w c)"
  by (simp add: sum_axes012_def sum_axes12_tab [OF assms(2,3)] sum_axis0_tab2 [OF assms(1)])

lemma mean_axis0_tab:
  assumes "0 < B"
  shows "mean_axis0 (tab2 B C f) = tab1 C (\<lambda>c. (\<Sum>b<B. f b c) / real B)"
proof -
  have "length (tab2 B C f) = B" by (simp add: tab2_def)
  then show ?thesis
    by (simp add: mean_axis0_def sum_axis0_tab2 [OF assms] map_tab1)
qed

lemma mean1_tab: "mean1 (tab1 C f) = (\<Sum>c<C. f c) / real C"
  by (simp add: mean1_def sum_list_tab1)

lemma adds1_tab: "adds1 (tab1 C f) s = tab1 C (\<lambda>c. f c + s)"
  by (simp add: adds1_def map_tab1)

lemma adds2_tab: "adds2 (tab2 B C f) s = tab2 B C (\<lambda>b c. f b c + s)"
  by (simp add: adds2_def tab2_def map_tab1 adds1_tab)

lemma muls1_tab: "muls1 k (tab1 C f) = tab1 C (\<lambda>c. k * f c)"
  by (simp add: muls1_def map_tab1)

lemma muls2_tab: "muls2 k (tab2 B C f) = tab2 B C (\<lambda>b c. k * f b c)"
  by (simp add: muls2_def tab2_def map_tab1 muls1_tab)

lemma mulw1_tab:
  "weights_ok C cw \<Longrightarrow> mulw1 (tab1 C f) cw = tab1 C (\<lambda>c. f c * weight_of cw c)"
proof (cases cw)
  case (Scalar k)
  then show ?thesis by (simp add: map_tab1)
next
  case (PerClass ws)
  assume "weights_ok C cw"
  with PerClass have "ws = tab1 C (\<lambda>c. ws ! c)" by (simp add: tab1_nth)
  then have "mulw1 (tab1 C f) cw = ew1 (*) (tab1 C f) (tab1 C (\<lambda>c. ws ! c))"
    using PerClass by (simp add: ew1_def)
  then show ?thesis using PerClass by (simp add: ew1_tab)
qed

lemma apply_threshold_tab:
  "apply_threshold th (tab4 B H W C p) = tab4 B H W C (\<lambda>b h w c. thresholded th (p b h w c))"
  by (cases th)
    (simp_all add: apply_threshold_def thresholded_def cast_def greater_def un4_tab binarize1_def)

lemma iou_channels_tab:
  assumes "0 < B" "0 < H" "0 < W"
  shows "iou_channels (tab4 B H W C g) (tab4 B H W C p) smooth per_image th
     = tab1 C (iou_class_spec B H W (tab4 B H W C g) (tab4 B H W C p) smooth per_image th)"
  apply (simp add: iou_channels_def apply_threshold_tab Let_def ew4_tab sum_axes12_tab[OF assms(2,3)]
     sum_axes012_tab[OF assms] ew2_tab adds2_tab ew1_tab adds1_tab mean_axis0_tab[OF assms(1)])
  apply (intro conjI impI tab1_cong)
   apply (simp_all add: iou_class_spec_def Let_def cong: sum.cong_simp)
  done

lemma f_channels_tab:
  assumes "0 < B" "0 < H" "0 < W"
  shows "f_channels (tab4 B H W C g) (tab4 B H W C p) beta smooth per_image th
     = tab1 C (f_class_spec B H W (tab4 B H W C g) (tab4 B H W C p) beta smooth per_image th)"
  apply (simp add: f_channels_def apply_threshold_tab Let_def ew4_tab sum_axes12_tab[OF assms(2,3)]
     sum_axes012_tab[OF assms] ew2_tab adds2_tab ew1_tab adds1_tab mean_axis0_tab[OF assms(1)]
     muls1_tab muls2_tab)
  apply (intro conjI impI tab1_cong)
   apply (simp_all add: f_class_spec_def Let_def cong: sum.cong_simp)
  done

lemma iou_score_channels:
  "iou_score gt pr cw smooth per_image th = mean1 (mulw1 (iou_channels gt pr smooth per_image th) cw)"
  by (simp add: iou_score_def iou_channels_def Let_def)

lemma f_score_channels:
  "f_score gt pr cw beta smooth per_image th = mean1 (mulw1 (f_channels gt pr beta smooth per_image th) cw)"
  by (simp add: f_score_def f_channels_def Let_def)

lemma iou_channels_shape:
  assumes "shape4 B H W C gt" "shape4 B H W C pr" "0 < B" "0 < H" "0 < W"
  shows "iou_channels gt pr smooth per_image th = tab1 C (iou_class_spec B H W gt pr smooth per_image th)"
  using iou_channels_tab [OF assms(3-5), of C "\<lambda>b h w c. gt ! b ! h ! w ! c" "\<lambda>b h w c. pr ! b ! h ! w ! c"]
    shape4_tab [OF assms(1), symmetric] shape4_tab [OF assms(2), symmetric]
  by simp

lemma f_channels_shape:
  assumes "shape4 B H W C gt" "shape4 B H W C pr" "0 < B" "0 < H" "0 < W"
  shows "f_channels gt pr beta smooth per_image th = tab1 C (f_class_spec B H W gt pr beta smooth per_image th)"
  using f_channels_tab [OF assms(3-5), of C "\<lambda>b h w c. gt ! b ! h ! w ! c" "\<lambda>b h w c. pr ! b ! h ! w ! c"]
    shape4_tab [OF assms(1), symmetric] shape4_tab [OF assms(2), symmetric]
  by simp

lemma iou_score_index:
  assumes "shape4 B H W C gt" "shape4 B H W C pr" "0 < B" "0 < H" "0 < W" "weights_ok C cw"
  shows "iou_score gt pr cw smooth per_image th = iou_spec B H W C gt pr cw smooth per_image th"
  by (simp add: iou_score_channels iou_channels_shape [OF assms(1-5)] mulw1_tab [OF assms(6)]
      mean1_tab iou_spec_def)

lemma f_score_index:
  assumes "shape4 B H W C gt" "shape4 B H W C pr" "0 < B" "0 < H" "0 < W" "weights_ok C cw"
  shows "f_score gt pr cw beta smooth per_image th = f_spec B H W C gt pr cw beta smooth per_image th"
  by (simp add: f_score_channels f_channels_shape [OF assms(1-5)] mulw1_tab [OF assms(6)]
      mean1_tab f_spec_def)

lemma apply_threshold_binarize: "apply_threshold (Some t) pr = binarize t pr"
  by (simp add: apply_threshold_def cast_def greater_def un4_def binarize_def binarize1_def comp_def)

lemma map2_commute:
  "(\<And>x y. f x y = f y x) \<Longrightarrow> map2 f xs ys = map2 f ys xs"
proof (induction xs arbitrary: ys)
  case Nil
  then show ?case by simp
next
  case (Cons x xs)
  then show ?case by (cases ys) simp_all
qed

lemma ew1_commute: "(\<And>x y. f x y = f y x) \<Longrightarrow> ew1 f a b = ew1 f b a"
  unfolding ew1_def by (rule map2_commute)

lemma ew2_commute: "(\<And>x y. f x y = f y x) \<Longrightarrow> ew2 f a b = ew2 f b a"
  unfolding ew2_def by (rule map2_commute) (rule ew1_commute)

lemma ew3_commute: "(\<And>x y. f x y = f y x) \<Longrightarrow> ew3 f a b = ew3 f b a"
  unfolding ew3_def by (rule map2_commute) (rule ew2_commute)

lemma ew4_commute: "(\<And>x y. f x y = f y x) \<Longrightarrow> ew4 f a b = ew4 f b a"
  unfolding ew4_def by (rule map2_commute) (rule ew3_commute)

lemma ones4_tab: "ones4 B H W C = tab4 B H W C (\<lambda>b h w c. 1)"
  by (simp add: ones4_def tab4_def tab3_def tab2_def tab1_def map_replicate_const)

lemma wmean_sum:
  assumes "length v = C" and "length ws = C"
  shows "mean1 (mulw1 v (PerClass ws)) = (\<Sum>c<C. v ! c * ws ! c) / real C"
proof -
  have "mulw1 (tab1 C (\<lambda>c. v ! c)) (PerClass ws) = tab1 C (\<lambda>c. v ! c * weight_of (PerClass ws) c)"
    by (rule mulw1_tab) (simp add: assms)
  then show ?thesis using assms by (simp add: tab1_nth mean1_tab)
qed

lemma sum_update_one:
  fixes v :: "real list"
  assumes "c < C" and "length ws = C"
  shows "(\<Sum>i<C. v ! i * (ws[c := k * ws ! c]) ! i)
           = (\<Sum>i<C. v ! i * ws ! i) + (k - 1) * (v ! c * ws ! c)"
proof -
  have c: "c \<in> {..<C}" using assms by simp
  have "(\<Sum>i<C. v ! i * (ws[c := k * ws ! c]) ! i)
      = v ! c * (k * ws ! c) + (\<Sum>i\<in>{..<C} - {c}. v ! i * (ws[c := k * ws ! c]) ! i)"
    using assms by (simp add: sum.remove [OF _ c])
  also have "(\<Sum>i\<in>{..<C} - {c}. v ! i * (ws[c := k * ws ! c]) ! i)
      = (\<Sum>i\<in>{..<C} - {c}. v ! i * ws ! i)"
    by (rule sum.cong) auto
  also have "\<dots> = (\<Sum>i<C. v ! i * ws ! i) - v ! c * ws ! c"
    by (simp add: sum.remove [OF _ c])
  finally show ?thesis by (simp add: algebra_simps)
qed

lemma wmean_update:
  assumes "length v = C" and "length ws = C" and "c < C"
  shows "mean1 (mulw1 v (PerClass (ws[c := k * ws ! c])))
           = mean1 (mulw1 v (PerClass ws)) + (k - 1) * (v ! c * ws ! c / real C)"
proof -
  have "mean1 (mulw1 v (PerClass (ws[c := k * ws ! c])))
      = (\<Sum>i<C. v ! i * (ws[c := k * ws ! c]) ! i) / real C"
    using assms by (simp add: wmean_sum del: mulw1.simps)
  also have "\<dots> = ((\<Sum>i<C. v ! i * ws ! i) + (k - 1) * (v ! c * ws ! c)) / real C"
    using assms by (simp add: sum_update_one)
  also have "\<dots> = mean1 (mulw1 v (PerClass ws)) + (k - 1) * (v ! c * ws ! c / real C)"
    using assms by (simp add: wmean_sum add_divide_distrib del: mulw1.simps)
  finally show ?thesis .
qed

lemma wmean_linear:
  assumes "length v = C" and "length ws = C" and "length vs = C"
  shows "mean1 (mulw1 v (PerClass (map2 (\<lambda>x y. a * x + b * y) ws vs)))
           = a * mean1 (mulw1 v (PerClass ws)) + b * mean1 (mulw1 v (PerClass vs))"
proof -
  have "mean1 (mulw1 v (PerClass (map2 (\<lambda>x y. a * x + b * y) ws vs)))
      = (\<Sum>i<C. v ! i * (a * ws ! i + b * vs ! i)) / real C"
    using assms by (simp add: wmean_sum del: mulw1.simps cong: sum.cong_simp)
  also have "(\<Sum>i<C. v ! i * (a * ws ! i + b * vs ! i))
      = a * (\<Sum>i<C. v ! i * ws ! i) + b * (\<Sum>i<C. v ! i * vs ! i)"
    by (simp add: sum_distrib_left sum.distrib algebra_simps)
  finally show ?thesis
    using assms by (simp add: wmean_sum add_divide_distrib del: mulw1.simps)
qed

lemma length_iou_channels:
  assumes "shape4 B H W C gt" "shape4 B H W C pr" "0 < B" "0 < H" "0 < W"
  shows "length (iou_channels gt pr smooth per_image th) = C"
  by (simp add: iou_channels_shape [OF assms])

lemma length_f_channels:
  assumes "shape4 B H W C gt" "shape4 B H W C pr" "0 < B" "0 < H" "0 < W"
  shows "length (f_channels gt pr beta smooth per_image th) = C"
  by (simp add: f_channels_shape [OF assms])

lemma ones_iou_class:
  assumes "0 < B" "0 < H" "0 < W" "0 \<le> smooth" "c < C"
  shows "iou_class_spec B H W (tab4 B H W C (\<lambda>b h w c. 1)) (tab4 B H W C (\<lambda>b h w c. 1))
           smooth per_image None c = 1"
proof -
  have hw: "0 < real H * real W" using assms by simp
  have bhw: "0 < real B * (real H * real W)" using assms by simp
  have n1: "real H * real W + smooth \<noteq> 0" using hw assms(4) by linarith
  have n2: "real B * (real H * real W) + smooth \<noteq> 0" using bhw assms(4) by linarith
  show ?thesis
    using assms n1 n2
    by (simp add: iou_class_spec_def thresholded_def Let_def cong: sum.cong_simp)
qed

lemma ones_f_class:
  assumes "0 < B" "0 < H" "0 < W" "0 \<le> smooth" "c < C"
  shows "f_class_spec B H W (tab4 B H W C (\<lambda>b h w c. 1)) (tab4 B H W C (\<lambda>b h w c. 1))
           beta smooth per_image None c = 1"
proof -
  have hw: "0 < (1 + beta\<^sup>2) * (real H * real W)" using assms by (simp add: add_pos_nonneg)
  have bhw: "0 < (1 + beta\<^sup>2) * (real B * (real H * real W))" using assms by (simp add: add_pos_nonneg)
  have n1: "(1 + beta\<^sup>2) * (real H * real W) + smooth \<noteq> 0" using hw assms(4) by linarith
  have n2: "(1 + beta\<^sup>2) * (real B * (real H * real W)) + smooth \<noteq> 0" using bhw assms(4) by linarith
  show ?thesis
    using assms n1 n2
    by (simp add: f_class_spec_def thresholded_def Let_def cong: sum.cong_simp)
qed

lemma mem_flat4:
  "b < length t \<Longrightarrow> h < length (t ! b) \<Longrightarrow> w < length (t ! b ! h) \<Longrightarrow> c < length (t ! b ! h ! w)
     \<Longrightarrow> t ! b ! h ! w ! c \<in> set (flat4 t)"
  unfolding flat4_def set_concat by (meson UN_I nth_mem)

lemma disjoint_entries:
  assumes "shape4 B H W C gt" "shape4 B H W C pr" "disjoint4 gt pr"
    and "b < B" "h < H" "w < W" "c < C"
  shows "gt ! b ! h ! w ! c * pr ! b ! h ! w ! c = 0"
proof -
  define G where "G = (\<lambda>b h w c. gt ! b ! h ! w ! c)"
  define P where "P = (\<lambda>b h w c. pr ! b ! h ! w ! c)"
  have g: "gt = tab4 B H W C G" unfolding G_def by (rule shape4_tab [OF assms(1)])
  have p: "pr = tab4 B H W C P" unfolding P_def by (rule shape4_tab [OF assms(2)])
  let ?m = "tab4 B H W C (\<lambda>b h w c. G b h w c * P b h w c)"
  have m: "ew4 (*) gt pr = ?m" by (simp add: g p ew4_tab)
  have "?m ! b ! h ! w ! c \<in> set (flat4 ?m)"
    by (rule mem_flat4) (simp_all add: assms(4-7) tab4_def tab3_def tab2_def)
  then have "?m ! b ! h ! w ! c = 0" using assms(3) by (simp add: disjoint4_def m)
  then show ?thesis using assms(4-7) by (simp add: G_def P_def)
qed

lemma disjoint_iou_class:
  assumes "shape4 B H W C gt" "shape4 B H W C pr" "disjoint4 gt pr" "c < C"
  shows "iou_class_spec B H W gt pr smooth per_image None c
           = (if per_image
              then (\<Sum>b<B. smooth / (union_spec B H W gt pr True b c + smooth)) / real B
              else smooth / (union_spec B H W gt pr False 0 c + smooth))"
proof -
  have img: "(\<Sum>h<H. \<Sum>w<W. gt ! b ! h ! w ! c * pr ! b ! h ! w ! c) = 0" if "b < B" for b
  proof (rule sum.neutral, rule ballI, rule sum.neutral, rule ballI)
    fix h w assume "h \<in> {..<H}" "w \<in> {..<W}"
    then have h: "h < H" and w: "w < W" by simp_all
    show "gt ! b ! h ! w ! c * pr ! b ! h ! w ! c = 0"
      by (rule disjoint_entries [OF assms(1-3) that h w assms(4)])
  qed
  have all: "(\<Sum>b<B. \<Sum>h<H. \<Sum>w<W. gt ! b ! h ! w ! c * pr ! b ! h ! w ! c) = 0"
  proof (rule sum.neutral, rule ballI)
    fix b assume "b \<in> {..<B}"
    then have "b < B" by simp
    then show "(\<Sum>h<H. \<Sum>w<W. gt ! b ! h ! w ! c * pr ! b ! h ! w ! c) = 0" by (rule img)
  qed
  show ?thesis
    by (simp add: iou_class_spec_def union_spec_def thresholded_def Let_def img all
        cong: sum.cong_simp)
qed

lemma disjoint_iou_score:
  assumes "shape4 B H W C gt" "shape4 B H W C pr" "0 < B" "0 < H" "0 < W" "disjoint4 gt pr"
  shows "iou_score gt pr (Scalar 1) smooth per_image None
           = disjoint_iou_spec B H W C gt pr smooth per_image"
proof -
  have "iou_score gt pr (Scalar 1) smooth per_image None
      = (\<Sum>c<C. iou_class_spec B H W gt pr smooth per_image None c) / real C"
    using iou_score_index [OF assms(1-5), of "Scalar 1"] by (simp add: iou_spec_def)
  also have "\<dots> = disjoint_iou_spec B H W C gt pr smooth per_image"
    by (simp add: disjoint_iou_class [OF assms(1,2,6)] disjoint_iou_spec_def cong: sum.cong_simp)
  finally show ?thesis .
qed

lemma mean_bounds:
  fixes f :: "nat \<Rightarrow> real"
  assumes "0 < n" and "\<And>i. i < n \<Longrightarrow> 0 \<le> f i \<and> f i \<le> K"
  shows "0 \<le> (\<Sum>i<n. f i) / real n \<and> (\<Sum>i<n. f i) / real n \<le> K"
proof -
  have lo: "0 \<le> (\<Sum>i<n. f i)" by (rule sum_nonneg) (simp add: assms(2))
  have "(\<Sum>i<n. f i) \<le> (\<Sum>i<n. K)" by (rule sum_mono) (simp add: assms(2))
  then have hi: "(\<Sum>i<n. f i) \<le> real n * K" by simp
  have "(\<Sum>i<n. f i) / real n \<le> K"
    using hi assms(1) by (simp add: divide_le_eq mult.commute)
  then show ?thesis using lo by simp
qed

lemma smooth_ratio_bounds:
  fixes smooth :: real
  assumes "0 \<le> smooth" "0 < M" "M \<le> u"
  shows "0 \<le> smooth / (u + smooth) \<and> smooth / (u + smooth) \<le> smooth / (M + smooth)"
proof -
  have "0 < M + smooth" using assms by linarith
  moreover have "M + smooth \<le> u + smooth" using assms by linarith
  ultimately show ?thesis using assms(1) by (simp add: frac_le)
qed

lemma disjoint_iou_bounds:
  assumes "0 < B" "0 < C" "0 \<le> smooth" "0 < M"
    and "\<forall>c<C. \<forall>b<B. M \<le> union_spec B H W gt pr per_image b c"
  shows "0 \<le> disjoint_iou_spec B H W C gt pr smooth per_image
       \<and> disjoint_iou_spec B H W C gt pr smooth per_image \<le> smooth / (M + smooth)"
proof (cases per_image)
  case True
  let ?f = "\<lambda>c. (\<Sum>b<B. smooth / (union_spec B H W gt pr True b c + smooth)) / real B"
  have "0 \<le> ?f c \<and> ?f c \<le> smooth / (M + smooth)" if "c < C" for c
  proof (rule mean_bounds [OF assms(1)])
    fix b assume "b < B"
    then have "M \<le> union_spec B H W gt pr True b c" using assms(5) True that by simp
    then show "0 \<le> smooth / (union_spec B H W gt pr True b c + smooth)
      \<and> smooth / (union_spec B H W gt pr True b c + smooth) \<le> smooth / (M + smooth)"
      by (rule smooth_ratio_bounds [OF assms(3,4)])
  qed
  then have "0 \<le> (\<Sum>c<C. ?f c) / real C \<and> (\<Sum>c<C. ?f c) / real C \<le> smooth / (M + smooth)"
    by (rule mean_bounds [OF assms(2)])
  then show ?thesis using True by (simp add: disjoint_iou_spec_def)
next
  case False
  let ?f = "\<lambda>c. smooth / (union_spec B H W gt pr False 0 c + smooth)"
  have "0 \<le> ?f c \<and> ?f c \<le> smooth / (M + smooth)" if "c < C" for c
  proof -
    have "M \<le> union_spec B H W gt pr False 0 c" using assms(1,5) False that by simp
    then show ?thesis by (rule smooth_ratio_bounds [OF assms(3,4)])
  qed
  then have "0 \<le> (\<Sum>c<C. ?f c) / real C \<and> (\<Sum>c<C. ?f c) / real C \<le> smooth / (M + smooth)"
    by (rule mean_bounds [OF assms(2)])
  then show ?thesis using False by (simp add: disjoint_iou_spec_def)
qed

lemma smooth_ratio_tendsto: "((\<lambda>M. smooth / (M + smooth)) \<longlongrightarrow> 0) at_top"
  for smooth :: real
proof -
  have "LIM M at_top. smooth + M :> at_top"
    by (rule filterlim_tendsto_add_at_top [OF tendsto_const filterlim_ident])
  then have "LIM M at_top. M + smooth :> at_top" by (simp add: add.commute)
  then show ?thesis by (rule real_tendsto_divide_at_top [OF tendsto_const])
qed

lemma sum_list_concat: "sum_list (concat xss) = sum_list (map sum_list xss)"
  for xss :: "real list list"
  by (induction xss) simp_all

lemma sum_list_concat_tab1: "sum_list (concat (tab1 n F)) = (\<Sum>i<n. sum_list (F i))"
  for F :: "nat \<Rightarrow> real list"
  by (simp add: sum_list_concat map_tab1 sum_list_tab1)

lemma length_concat_tab1: "length (concat (tab1 n F)) = (\<Sum>i<n. length (F i))"
  by (simp add: length_concat map_tab1 tab1_def interv_sum_list_conv_sum_set_nat atLeast_upt)

lemma concat_concat: "concat (concat xsss) = concat (map concat xsss)"
  by (induction xsss) simp_all

lemma concat_concat_tab1: "concat (concat (tab1 n F)) = concat (tab1 n (\<lambda>i. concat (F i)))"
  by (simp add: concat_concat map_tab1)

lemma flat4_tab:
  "flat4 (tab4 B H W C f)
     = concat (tab1 B (\<lambda>b. concat (tab1 H (\<lambda>h. concat (tab1 W (\<lambda>w. tab1 C (f b h w)))))))"
  by (simp add: flat4_def tab4_def tab3_def tab2_def concat_concat_tab1)

lemma sum_list_flat4_tab: "sum_list (flat4 (tab4 B H W C f)) = sum4 B H W C f"
  by (simp add: flat4_tab sum_list_concat_tab1 sum_list_tab1 sum4_def)

lemma length_flat4_tab: "length (flat4 (tab4 B H W C f)) = B * H * W * C"
  by (simp add: flat4_tab length_concat_tab1)

lemma mean4_tab: "mean4 (tab4 B H W C f) = sum4 B H W C f / real (B * H * W * C)"
  by (simp add: mean4_def sum_list_flat4_tab length_flat4_tab)


lemma un_tabs:
  "clip (tab4 B H W C f) lo hi = tab4 B H W C (\<lambda>b h w c. clip1 (f b h w c) lo hi)"
  "log4 (tab4 B H W C f) = tab4 B H W C (\<lambda>b h w c. ln (f b h w c))"
  "pow4 (tab4 B H W C f) a = tab4 B H W C (\<lambda>b h w c. f b h w c powr a)"
  "muls4 k (tab4 B H W C f) = tab4 B H W C (\<lambda>b h w c. k * f b h w c)"
  "rsub4 k (tab4 B H W C f) = tab4 B H W C (\<lambda>b h w c. k - f b h w c)"
  "neg4 (tab4 B H W C f) = tab4 B H W C (\<lambda>b h w c. - f b h w c)"
  by (simp_all add: clip_def log4_def pow4_def muls4_def rsub4_def neg4_def un4_tab)

lemma mulw4_tab:
  assumes "weights_ok C cw"
  shows "mulw4 (tab4 B H W C f) cw = tab4 B H W C (\<lambda>b h w c. f b h w c * weight_of cw c)"
  by (simp add: mulw4_def tab4_def tab3_def tab2_def map_tab1 mulw1_tab [OF assms])

lemma shape2_tab2 [simp]: "shape2 B C (tab2 B C f)"
  by (auto simp add: shape2_def tab2_def tab1_def)

lemma nth_tab2 [simp]: "b < B \<Longrightarrow> c < C \<Longrightarrow> tab2 B C f ! b ! c = f b c"
  by (simp add: tab2_def)

lemma tab2_cong: "(\<And>b c. b < B \<Longrightarrow> c < C \<Longrightarrow> f b c = g b c) \<Longrightarrow> tab2 B C f = tab2 B C g"
  unfolding tab2_def by (intro tab1_cong) simp

lemma sum_planes_rows:
  "ms \<noteq> [] \<Longrightarrow> \<forall>m \<in> set ms. shape2 H W m
     \<Longrightarrow> sum_planes ms = tab2 H W (\<lambda>h w. \<Sum>m\<leftarrow>ms. m ! h ! w)"
proof (induction ms rule: sum_planes.induct)
  case 1
  then show ?case by simp
next
  case (2 m)
  then have "shape2 H W m" by simp
  then show ?case using shape2_tab [of H W m] by simp
next
  case (3 m n ms)
  then have ih: "sum_planes (n # ms) = tab2 H W (\<lambda>h w. \<Sum>m\<leftarrow>n # ms. m ! h ! w)" by simp
  from 3 have "shape2 H W m" by simp
  then have m: "m = tab2 H W (\<lambda>h w. m ! h ! w)" by (rule shape2_tab)
  have "sum_planes (m # n # ms)
      = ew2 (+) (tab2 H W (\<lambda>h w. m ! h ! w)) (tab2 H W (\<lambda>h w. \<Sum>m\<leftarrow>n # ms. m ! h ! w))"
    using ih m by simp
  also have "\<dots> = tab2 H W (\<lambda>h w. \<Sum>m\<leftarrow>m # n # ms. m ! h ! w)"
    by (simp add: ew2_tab)
  finally show ?case .
qed

lemma sum_planes_tab:
  assumes "0 < n"
  shows "sum_planes (tab1 n (\<lambda>i. tab2 H W (f i))) = tab2 H W (\<lambda>h w. \<Sum>i<n. f i h w)"
proof -
  let ?ms = "tab1 n (\<lambda>i. tab2 H W (f i))"
  have ne: "?ms \<noteq> []" using assms by (auto simp add: tab1_def)
  have sh: "\<forall>m \<in> set ?ms. shape2 H W m" by (auto simp add: tab1_def)
  have "sum_planes ?ms = tab2 H W (\<lambda>h w. \<Sum>m\<leftarrow>?ms. m ! h ! w)"
    using sum_planes_rows [OF ne sh] .
  also have "\<dots> = tab2 H W (\<lambda>h w. \<Sum>i<n. f i h w)"
  proof (rule tab2_cong)
    fix h w assume hw: "h < H" "w < W"
    have "(\<Sum>m\<leftarrow>?ms. m ! h ! w) = sum_list (tab1 n (\<lambda>i. tab2 H W (f i) ! h ! w))"
      by (simp add: map_tab1)
    also have "\<dots> = (\<Sum>i<n. tab2 H W (f i) ! h ! w)" by (rule sum_list_tab1)
    also have "\<dots> = (\<Sum>i<n. f i h w)" using hw by simp
    finally show "(\<Sum>m\<leftarrow>?ms. m ! h ! w) = (\<Sum>i<n. f i h w)" .
  qed
  finally show ?thesis .
qed

lemma categorical_focal_loss_tab:
  "categorical_focal_loss (tab4 B H W C g) (tab4 B H W C p) gamma alpha backend
     = sum4 B H W C (\<lambda>b h w c. focal_entry alpha gamma (epsilon backend) (g b h w c) (p b h w c))
         / real (B * H * W * C)"
  by (simp add: categorical_focal_loss_def un_tabs ew4_tab mean4_tab focal_entry_def Let_def)

lemma focal_loss_tab:
  "focal_loss (tab4 B H W C g) (tab4 B H W C p) gamma alpha backend
     = sum4 B H W C (\<lambda>b h w c. focal_entry alpha gamma (epsilon backend) (g b h w c) (p b h w c)
                               + focal_entry alpha gamma (epsilon backend) (1 - g b h w c) (1 - p b h w c))
         / real (B * H * W * C)"
  by (simp add: focal_loss_def categorical_focal_loss_tab un_tabs sum4_def sum.distrib add_divide_distrib)

lemma clip1_eq:
  assumes "eps \<le> 1 / 2"
  shows "clip1 x eps (1 - eps) = min (max x eps) (1 - eps)"
  using assms by (simp add: clip1_def Let_def)

lemma clip1_bounds:
  assumes "eps \<le> 1 / 2"
  shows "eps \<le> clip1 x eps (1 - eps) \<and> clip1 x eps (1 - eps) \<le> 1 - eps"
  using assms by (simp add: clip1_eq)

lemma clip1_pos:
  assumes "0 < eps"
  shows "0 < clip1 x eps (1 - eps)"
  using assms by (simp add: clip1_def Let_def min_def max_def)

lemma focal_entry_alt:
  "focal_entry alpha gamma eps g p
     = alpha * (g * g * ((1 - clip1 p eps (1 - eps)) powr gamma * (- ln (clip1 p eps (1 - eps)))))"
  by (simp add: focal_entry_def Let_def)

lemma neg_ln_clip_nonneg:
  assumes "0 < eps" "eps \<le> 1 / 2"
  shows "0 \<le> - ln (clip1 p eps (1 - eps))"
proof -
  have "0 < clip1 p eps (1 - eps)" "clip1 p eps (1 - eps) \<le> 1"
    using clip1_bounds [OF assms(2), of p] assms(1) by linarith+
  then show ?thesis by simp
qed

lemma focal_entry_nonneg:
  assumes "0 \<le> alpha" "0 < eps" "eps \<le> 1 / 2"
  shows "0 \<le> focal_entry alpha gamma eps g p"
proof -
  have "0 \<le> (1 - clip1 p eps (1 - eps)) powr gamma * (- ln (clip1 p eps (1 - eps)))"
    using neg_ln_clip_nonneg [OF assms(2,3), of p] by (intro mult_nonneg_nonneg) simp_all
  moreover have "0 \<le> g * g" by simp
  ultimately
  have "0 \<le> g * g * ((1 - clip1 p eps (1 - eps)) powr gamma * (- ln (clip1 p eps (1 - eps))))"
    by (rule mult_nonneg_nonneg [rotated])
  then show ?thesis
    unfolding focal_entry_alt using assms(1) by (rule mult_nonneg_nonneg [rotated])
qed

lemma focal_entry_zero [simp]: "focal_entry alpha gamma eps 0 p = 0"
  by (simp add: focal_entry_alt)

lemma focal_entry_one_one:
  assumes "0 < eps" "eps \<le> 1 / 2"
  shows "focal_entry alpha gamma eps 1 1 = alpha * eps powr gamma * (- ln (1 - eps))"
  using assms by (simp add: focal_entry_alt clip1_eq)

lemma focal_entry_one_least:
  assumes "0 \<le> alpha" "0 \<le> gamma" "0 < eps" "eps \<le> 1 / 2"
  shows "focal_entry alpha gamma eps 1 1 \<le> focal_entry alpha gamma eps 1 p"
proof -
  let ?q = "clip1 p eps (1 - eps)"
  have q: "eps \<le> ?q" "?q \<le> 1 - eps" using clip1_bounds [OF assms(4), of p] by simp_all
  have a: "eps powr gamma \<le> (1 - ?q) powr gamma"
    using assms(2,3) q by (intro powr_mono2) simp_all
  have "ln ?q \<le> ln (1 - eps)" using q assms(3) by (intro ln_mono) linarith+
  then have b: "- ln (1 - eps) \<le> - ln ?q" by simp
  have c: "0 \<le> - ln (1 - eps)" using assms(3,4) by simp
  have "eps powr gamma * (- ln (1 - eps)) \<le> (1 - ?q) powr gamma * (- ln ?q)"
    using a b c by (intro mult_mono) simp_all
  then have "alpha * (eps powr gamma * (- ln (1 - eps))) \<le> alpha * ((1 - ?q) powr gamma * (- ln ?q))"
    using assms(1) by (rule mult_left_mono)
  moreover have "focal_entry alpha gamma eps 1 1 = alpha * (eps powr gamma * (- ln (1 - eps)))"
    by (simp add: focal_entry_one_one [OF assms(3,4)])
  moreover have "focal_entry alpha gamma eps 1 p = alpha * ((1 - ?q) powr gamma * (- ln ?q))"
    by (simp add: focal_entry_alt)
  ultimately show ?thesis by simp
qed

lemma quarter_bound:
  fixes g q eps :: real
  assumes "0 \<le> g" "g \<le> 1" "0 < eps" "eps \<le> 1 / 5" "q = min (max g eps) (1 - eps)"
  shows "4 * (g * g * (1 - q)) \<le> q"
proof -
  consider "g \<le> eps" | "eps \<le> g \<and> g \<le> 1 - eps" | "1 - eps \<le> g" by linarith
  then show ?thesis
  proof cases
    case 1
    then have q: "q = eps" using assms by simp
    have "g * g \<le> eps * eps" using 1 assms(1) by (intro mult_mono) simp_all
    then have "g * g * (1 - eps) \<le> eps * eps * (1 - eps)"
      using assms(4) by (intro mult_right_mono) simp_all
    moreover have "0 \<le> (1 - 2 * eps)\<^sup>2" by simp
    then have "4 * (eps * (1 - eps)) \<le> 1" by (simp add: power2_eq_square algebra_simps)
    then have "eps * (4 * (eps * (1 - eps))) \<le> eps * 1"
      using assms(3) by (intro mult_left_mono) simp_all
    ultimately show ?thesis unfolding q by (simp add: algebra_simps)
  next
    case 2
    then have q: "q = g" using assms by simp
    have "0 \<le> (1 - 2 * g)\<^sup>2" by simp
    then have "4 * (g * (1 - g)) \<le> 1" by (simp add: power2_eq_square algebra_simps)
    then have "g * (4 * (g * (1 - g))) \<le> g * 1"
      using assms(1) by (intro mult_left_mono) simp_all
    then show ?thesis unfolding q by (simp add: algebra_simps)
  next
    case 3
    then have q: "q = 1 - eps" using assms by (simp add: min_def max_def)
    have "g * g \<le> 1 * 1" using assms(1,2) by (intro mult_mono) simp_all
    then have "g * g * eps \<le> 1 * eps" using assms(3) by (intro mult_right_mono) simp_all
    then show ?thesis unfolding q using assms(4) by simp
  qed
qed

lemma focal_entry_self_le:
  assumes "0 \<le> g" "g \<le> 1" "0 \<le> alpha" "0 \<le> gamma" "0 < eps" "eps \<le> 1 / 5"
  shows "focal_entry alpha gamma eps g g \<le> alpha / 4"
proof -
  let ?q = "clip1 g eps (1 - eps)"
  have e2: "eps \<le> 1 / 2" using assms(6) by simp
  have qe: "?q = min (max g eps) (1 - eps)" by (rule clip1_eq [OF e2])
  have q: "eps \<le> ?q" "?q \<le> 1 - eps" using clip1_bounds [OF e2, of g] by simp_all
  have qpos: "0 < ?q" using q assms(5) by linarith
  have p1: "(1 - ?q) powr gamma \<le> 1" using q assms(4,5) by (intro powr_le1) simp_all
  have "ln (1 / ?q) \<le> 1 / ?q - 1" using qpos by (intro ln_le_minus_one) simp
  moreover have "ln (1 / ?q) = - ln ?q" using qpos by (simp add: ln_div)
  moreover have "1 / ?q - 1 = (1 - ?q) / ?q" using qpos by (simp add: field_simps)
  ultimately have l: "- ln ?q \<le> (1 - ?q) / ?q" by simp
  have l0: "0 \<le> - ln ?q" by (rule neg_ln_clip_nonneg [OF assms(5) e2])
  have "(1 - ?q) powr gamma * (- ln ?q) \<le> 1 * ((1 - ?q) / ?q)"
    using p1 l l0 by (intro mult_mono) simp_all
  then have "g * g * ((1 - ?q) powr gamma * (- ln ?q)) \<le> g * g * ((1 - ?q) / ?q)"
    by (intro mult_left_mono) simp_all
  also have "\<dots> \<le> 1 / 4"
    using quarter_bound [OF assms(1,2,5,6) qe] qpos by (simp add: field_simps)
  finally have "alpha * (g * g * ((1 - ?q) powr gamma * (- ln ?q))) \<le> alpha * (1 / 4)"
    using assms(3) by (rule mult_left_mono)
  then show ?thesis unfolding focal_entry_alt by simp
qed


lemma sum4_mono:
  assumes "\<And>b h w c. b < B \<Longrightarrow> h < H \<Longrightarrow> w < W \<Longrightarrow> c < C \<Longrightarrow> f b h w c \<le> g b h w c"
  shows "sum4 B H W C f \<le> sum4 B H W C g"
  unfolding sum4_def by (intro sum_mono) (simp add: assms)

lemma sum4_cong:
  assumes "\<And>b h w c. b < B \<Longrightarrow> h < H \<Longrightarrow> w < W \<Longrightarrow> c < C \<Longrightarrow> f b h w c = g b h w c"
  shows "sum4 B H W C f = sum4 B H W C g"
  unfolding sum4_def by (intro sum.cong refl) (simp add: assms)

lemma sum4_const: "sum4 B H W C (\<lambda>b h w c. K) = real (B * H * W * C) * K"
  by (simp add: sum4_def)

lemma mean_le:
  fixes s :: real
  assumes "0 < n" "s \<le> real n * K"
  shows "s / real n \<le> K"
  using assms by (simp add: divide_le_eq mult.commute)

lemma flat4_entry:
  assumes "shape4 B H W C t" "b < B" "h < H" "w < W" "c < C"
  shows "t ! b ! h ! w ! c \<in> set (flat4 t)"
proof -
  define G where "G = (\<lambda>b h w c. t ! b ! h ! w ! c)"
  have t: "tab4 B H W C G = t" unfolding G_def by (rule shape4_tab [OF assms(1), symmetric])
  have "tab4 B H W C G ! b ! h ! w ! c \<in> set (flat4 (tab4 B H W C G))"
    by (rule mem_flat4) (simp_all add: assms(2-5) tab4_def tab3_def tab2_def)
  then show ?thesis by (simp only: t)
qed

lemma focal_loss_shape:
  assumes "shape4 B H W C gt" "shape4 B H W C pr"
  shows "focal_loss gt pr gamma alpha backend
     = sum4 B H W C (\<lambda>b h w c. focal_pair alpha gamma (epsilon backend)
                       (gt ! b ! h ! w ! c) (pr ! b ! h ! w ! c)) / real (B * H * W * C)"
  using focal_loss_tab [of B H W C "\<lambda>b h w c. gt ! b ! h ! w ! c" "\<lambda>b h w c. pr ! b ! h ! w ! c"]
    shape4_tab [OF assms(1), symmetric] shape4_tab [OF assms(2), symmetric]
  by (simp add: focal_pair_def)

lemma focal_pair_nonneg:
  assumes "0 \<le> alpha" "0 < eps" "eps \<le> 1 / 2"
  shows "0 \<le> focal_pair alpha gamma eps g p"
  unfolding focal_pair_def by (intro add_nonneg_nonneg focal_entry_nonneg assms)

lemma focal_pair_self_le:
  assumes "0 \<le> g" "g \<le> 1" "0 \<le> alpha" "0 \<le> gamma" "0 < eps" "eps \<le> 1 / 5"
  shows "focal_pair alpha gamma eps g g \<le> alpha / 2"
proof -
  have "focal_entry alpha gamma eps g g \<le> alpha / 4"
    by (rule focal_entry_self_le [OF assms])
  moreover have "focal_entry alpha gamma eps (1 - g) (1 - g) \<le> alpha / 4"
    using assms by (intro focal_entry_self_le) simp_all
  ultimately show ?thesis unfolding focal_pair_def by simp
qed

lemma focal_pair_binary:
  assumes "g = 0 \<or> g = 1" "0 < eps" "eps \<le> 1 / 2"
  shows "focal_pair alpha gamma eps g g = alpha * eps powr gamma * (- ln (1 - eps))"
  using assms(1) by (auto simp add: focal_pair_def focal_entry_one_one [OF assms(2,3)])

lemma focal_pair_binary_least:
  assumes "g = 0 \<or> g = 1" "0 \<le> alpha" "0 \<le> gamma" "0 < eps" "eps \<le> 1 / 2"
  shows "focal_pair alpha gamma eps g g \<le> focal_pair alpha gamma eps g p"
  using assms(1) focal_entry_one_least [OF assms(2-5)]
  by (auto simp add: focal_pair_def)


lemma focal_loss_nonneg:
  assumes "shape4 B H W C gt" "shape4 B H W C pr"
    and "0 \<le> alpha" "0 < epsilon backend" "epsilon backend \<le> 1 / 2"
  shows "0 \<le> focal_loss gt pr gamma alpha backend"
proof -
  have "sum4 B H W C (\<lambda>b h w c. 0)
      \<le> sum4 B H W C (\<lambda>b h w c. focal_pair alpha gamma (epsilon backend)
                       (gt ! b ! h ! w ! c) (pr ! b ! h ! w ! c))"
    by (rule sum4_mono) (rule focal_pair_nonneg [OF assms(3-5)])
  then show ?thesis
    unfolding focal_loss_shape [OF assms(1,2)] by (simp add: sum4_const)
qed

lemma focal_loss_self_le:
  assumes "shape4 B H W C gt" "0 < B" "0 < H" "0 < W" "0 < C"
    and "0 \<le> alpha" "0 \<le> gamma" "0 < epsilon backend" "epsilon backend \<le> 1 / 5"
    and "unit_range4 gt"
  shows "focal_loss gt gt gamma alpha backend \<le> alpha / 2"
proof -
  have n: "0 < B * H * W * C" using assms(2-5) by simp
  have "sum4 B H W C (\<lambda>b h w c. focal_pair alpha gamma (epsilon backend)
                       (gt ! b ! h ! w ! c) (gt ! b ! h ! w ! c))
      \<le> sum4 B H W C (\<lambda>b h w c. alpha / 2)"
  proof (rule sum4_mono)
    fix b h w c assume i: "b < B" "h < H" "w < W" "c < C"
    have "gt ! b ! h ! w ! c \<in> set (flat4 gt)" by (rule flat4_entry [OF assms(1) i])
    then have "0 \<le> gt ! b ! h ! w ! c" "gt ! b ! h ! w ! c \<le> 1"
      using assms(10) by (simp_all add: unit_range4_def)
    then show "focal_pair alpha gamma (epsilon backend) (gt ! b ! h ! w ! c) (gt ! b ! h ! w ! c)
      \<le> alpha / 2"
      by (rule focal_pair_self_le [OF _ _ assms(6-9)])
  qed
  then show ?thesis
    unfolding focal_loss_shape [OF assms(1,1)] sum4_const by (rule mean_le [OF n])
qed

lemma focal_loss_binary_value:
  assumes "shape4 B H W C gt" "0 < B" "0 < H" "0 < W" "0 < C"
    and "0 < epsilon backend" "epsilon backend \<le> 1 / 2" "binary4 gt"
  shows "focal_loss gt gt gamma alpha backend
           = alpha * epsilon backend powr gamma * (- ln (1 - epsilon backend))"
proof -
  have n: "real (B * H * W * C) \<noteq> 0" using assms(2-5) by simp
  have "sum4 B H W C (\<lambda>b h w c. focal_pair alpha gamma (epsilon backend)
                       (gt ! b ! h ! w ! c) (gt ! b ! h ! w ! c))
      = sum4 B H W C (\<lambda>b h w c. alpha * epsilon backend powr gamma * (- ln (1 - epsilon backend)))"
  proof (rule sum4_cong)
    fix b h w c assume i: "b < B" "h < H" "w < W" "c < C"
    have "gt ! b ! h ! w ! c \<in> set (flat4 gt)" by (rule flat4_entry [OF assms(1) i])
    then have "gt ! b ! h ! w ! c = 0 \<or> gt ! b ! h ! w ! c = 1"
      using assms(8) by (simp add: binary4_def)
    then show "focal_pair alpha gamma (epsilon backend) (gt ! b ! h ! w ! c) (gt ! b ! h ! w ! c)
      = alpha * epsilon backend powr gamma * (- ln (1 - epsilon backend))"
      by (rule focal_pair_binary [OF _ assms(6,7)])
  qed
  then show ?thesis
    unfolding focal_loss_shape [OF assms(1,1)] sum4_const using n by simp
qed

lemma focal_loss_binary_least:
  assumes "shape4 B H W C gt" "shape4 B H W C pr"
    and "0 \<le> alpha" "0 \<le> gamma" "0 < epsilon backend" "epsilon backend \<le> 1 / 2" "binary4 gt"
  shows "focal_loss gt gt gamma alpha backend \<le> focal_loss gt pr gamma alpha backend"
proof -
  have "sum4 B H W C (\<lambda>b h w c. focal_pair alpha gamma (epsilon backend)
                       (gt ! b ! h ! w ! c) (gt ! b ! h ! w ! c))
      \<le> sum4 B H W C (\<lambda>b h w c. focal_pair alpha gamma (epsilon backend)
                       (gt ! b ! h ! w ! c) (pr ! b ! h ! w ! c))"
  proof (rule sum4_mono)
    fix b h w c assume i: "b < B" "h < H" "w < W" "c < C"
    have "gt ! b ! h ! w ! c \<in> set (flat4 gt)" by (rule flat4_entry [OF assms(1) i])
    then have "gt ! b ! h ! w ! c = 0 \<or> gt ! b ! h ! w ! c = 1"
      using assms(7) by (simp add: binary4_def)
    then show "focal_pair alpha gamma (epsilon backend) (gt ! b ! h ! w ! c) (gt ! b ! h ! w ! c)
      \<le> focal_pair alpha gamma (epsilon backend) (gt ! b ! h ! w ! c) (pr ! b ! h ! w ! c)"
      by (rule focal_pair_binary_least [OF _ assms(3-6)])
  qed
  then show ?thesis
    unfolding focal_loss_shape [OF assms(1,1)] focal_loss_shape [OF assms(1,2)]
    by (rule divide_right_mono) simp
qed

lemma focal_entry_binary_le:
  assumes "x = 0 \<or> x = 1" "0 \<le> alpha" "0 < eps" "eps \<le> 1 / 2"
  shows "focal_entry alpha gamma eps x x \<le> alpha * eps powr gamma * (- ln (1 - eps))"
proof -
  have "0 \<le> focal_entry alpha gamma eps 1 1" by (rule focal_entry_nonneg [OF assms(2-4)])
  then have "0 \<le> alpha * eps powr gamma * (- ln (1 - eps))"
    by (simp only: focal_entry_one_one [OF assms(3,4)])
  then show ?thesis
    using assms(1) by (auto simp add: focal_entry_one_one [OF assms(3,4)])
qed

lemma normalized_sum_one:
  assumes "channel_sum fmt d2 d4 pr i j k l \<noteq> 0"
  shows "(if fmt = ChannelsLast
          then (\<Sum>c<d4. normalized_spec ChannelsLast d2 d4 pr i j k c)
          else (\<Sum>c<d2. normalized_spec ChannelsFirst d2 d4 pr i c k l)) = 1"
proof (cases fmt)
  case ChannelsLast
  then show ?thesis
    using assms by (simp add: normalized_spec_def channel_sum_def sum_divide_distrib [symmetric])
next
  case ChannelsFirst
  then show ?thesis
    using assms by (simp add: normalized_spec_def channel_sum_def sum_divide_distrib [symmetric])
qed

lemma bin1_tab: "bin1 f (tab1 n a) (tab1 n b) = tab1 n (\<lambda>i. f (a i) (b i))"
  by (simp add: bin1_def tab1_def map2_map_map)

lemma bin2_tab: "bin2 f (tab2 B C a) (tab2 B C b) = tab2 B C (\<lambda>i j. f (a i j) (b i j))"
  by (simp add: bin2_def tab2_def tab1_def map2_map_map bin1_tab [unfolded tab1_def])

lemma bin3_tab:
  "bin3 f (tab3 H W C a) (tab3 H W C b) = tab3 H W C (\<lambda>h w c. f (a h w c) (b h w c))"
  by (simp add: bin3_def tab3_def tab1_def map2_map_map bin2_tab)

lemma bin4_tab:
  "bin4 f (tab4 B H W C a) (tab4 B H W C b) = tab4 B H W C (\<lambda>b' h w c. f (a b' h w c) (b b' h w c))"
  by (simp add: bin4_def tab4_def tab1_def map2_map_map bin3_tab)

lemma tab4_cong:
  assumes "\<And>b h w c. b < B \<Longrightarrow> h < H \<Longrightarrow> w < W \<Longrightarrow> c < C \<Longrightarrow> f b h w c = g b h w c"
  shows "tab4 B H W C f = tab4 B H W C g"
  unfolding tab4_def tab3_def tab2_def by (intro tab1_cong) (simp add: assms)

lemma div_sum_axis3_tab:
  "div_sum_axis3 (tab4 B H W C f)
     = tab4 B H W C (\<lambda>b h w c. xdiv (f b h w c) (\<Sum>c'<C. f b h w c'))"
  by (simp add: div_sum_axis3_def tab4_def tab3_def tab2_def map_tab1 sum_list_tab1)

lemma div_sum_axis1_tab:
  assumes "0 < d2"
  shows "div_sum_axis1 (tab4 d1 d2 d3 d4 f)
           = tab4 d1 d2 d3 d4 (\<lambda>i j k l. xdiv (f i j k l) (\<Sum>c<d2. f i c k l))"
  by (simp add: div_sum_axis1_def tab4_def tab3_def map_tab1 sum_planes_tab [OF assms] bin2_tab)

lemma xun_tabs:
  "xclip (tab4 B H W C x) lo hi = tab4 B H W C (\<lambda>b h w c. xclip1 (x b h w c) lo hi)"
  "xlog4 (tab4 B H W C x) = tab4 B H W C (\<lambda>b h w c. xlog (x b h w c))"
  "fin4 (tab4 B H W C f) = tab4 B H W C (\<lambda>b h w c. Fin (f b h w c))"
  by (simp_all add: xclip_def xlog4_def fin4_def un4_tab)

lemma xmulw1_tab:
  "weights_ok C cw \<Longrightarrow> xmulw1 (tab1 C x) cw = tab1 C (\<lambda>c. xtimes (x c) (Fin (weight_of cw c)))"
proof (cases cw)
  case (Scalar k)
  then show ?thesis by (simp add: map_tab1)
next
  case (PerClass ws)
  assume "weights_ok C cw"
  with PerClass have "ws = tab1 C (\<lambda>c. ws ! c)" by (simp add: tab1_nth)
  then have "xmulw1 (tab1 C x) cw = bin1 (\<lambda>v w. xtimes v (Fin w)) (tab1 C x) (tab1 C (\<lambda>c. ws ! c))"
    using PerClass by (simp add: bin1_def)
  then show ?thesis using PerClass by (simp add: bin1_tab)
qed

lemma xmulw4_tab:
  assumes "weights_ok C cw"
  shows "xmulw4 (tab4 B H W C x) cw
           = tab4 B H W C (\<lambda>b h w c. xtimes (x b h w c) (Fin (weight_of cw c)))"
  by (simp add: xmulw4_def tab4_def tab3_def tab2_def map_tab1 xmulw1_tab [OF assms])

lemma xsum_list_Fin: "xsum_list (map Fin xs) = Fin (sum_list xs)"
  by (induction xs) (simp_all add: xsum_list_def)

lemma xflat4_fin4: "xflat4 (fin4 t) = map Fin (flat4 t)"
  by (simp add: xflat4_def fin4_def un4_def flat4_def map_concat)

lemma xmean4_fin4:
  assumes "flat4 t \<noteq> []"
  shows "xmean4 (fin4 t) = Fin (mean4 t)"
  using assms by (simp add: xmean4_def xflat4_fin4 xsum_list_Fin xdiv_count_def xdiv_def mean4_def)

lemma xmean4_tab_Fin:
  assumes "0 < B" "0 < H" "0 < W" "0 < C"
  shows "xmean4 (tab4 B H W C (\<lambda>b h w c. Fin (f b h w c)))
           = Fin (sum4 B H W C f / real (B * H * W * C))"
proof -
  have "length (flat4 (tab4 B H W C f)) \<noteq> 0" using assms by (simp add: length_flat4_tab)
  then have ne: "flat4 (tab4 B H W C f) \<noteq> []" by simp
  show ?thesis
    using xmean4_fin4 [OF ne] by (simp add: xun_tabs mean4_tab)
qed

lemma categorical_crossentropy_tab:
  assumes "weights_ok d4 cw" "0 < d2"
  shows "categorical_crossentropy (tab4 d1 d2 d3 d4 g) (tab4 d1 d2 d3 d4 p) cw backend
     = xneg (xmean4 (tab4 d1 d2 d3 d4 (\<lambda>i j k l.
         xtimes (xtimes (Fin (g i j k l))
                   (xlog (xclip1 (xdiv (p i j k l)
                            (if image_data_format backend = ChannelsLast
                             then (\<Sum>c<d4. p i j k c) else (\<Sum>c<d2. p i c k l)))
                          (epsilon backend) (1 - epsilon backend))))
           (Fin (weight_of cw l)))))"
  using assms
  by (simp add: categorical_crossentropy_def div_sum_axis3_tab div_sum_axis1_tab xun_tabs bin4_tab
      xmulw4_tab Let_def)


lemma xclip1_Fin: "xclip1 (Fin x) lo hi = Fin (clip1 x lo hi)"
  by (simp add: xclip1_def clip1_def Let_def)

lemma crossentropy_entry_finite:
  assumes "s \<noteq> 0" "0 < eps"
  shows "xtimes (xtimes (Fin g) (xlog (xclip1 (xdiv p s) eps (1 - eps)))) (Fin w)
           = Fin (g * ln (clip1 (p / s) eps (1 - eps)) * w)"
  using assms clip1_pos [OF assms(2), of "p / s"] by (simp add: xdiv_def xclip1_Fin)

lemma channel_sum_tab:
  assumes "i < d1" "j < d2" "k < d3" "l < d4"
  shows "channel_sum fmt d2 d4 (tab4 d1 d2 d3 d4 p) i j k l
           = (if fmt = ChannelsLast then (\<Sum>c<d4. p i j k c) else (\<Sum>c<d2. p i c k l))"
  using assms by (simp add: channel_sum_def cong: sum.cong_simp)

lemma categorical_crossentropy_tab_finite:
  assumes "weights_ok d4 cw" "0 < d1" "0 < d2" "0 < d3" "0 < d4"
    and "channel_sums_nonzero (image_data_format backend) d1 d2 d3 d4 (tab4 d1 d2 d3 d4 p)"
    and "0 < epsilon backend"
  shows "categorical_crossentropy (tab4 d1 d2 d3 d4 g) (tab4 d1 d2 d3 d4 p) cw backend
     = Fin (cce_spec (image_data_format backend) d1 d2 d3 d4
              (tab4 d1 d2 d3 d4 g) (tab4 d1 d2 d3 d4 p) cw (epsilon backend))"
proof -
  let ?fmt = "image_data_format backend"
  let ?eps = "epsilon backend"
  let ?S = "\<lambda>i j k l. if ?fmt = ChannelsLast then (\<Sum>c<d4. p i j k c) else (\<Sum>c<d2. p i c k l)"
  let ?F = "\<lambda>i j k l. g i j k l * ln (clip1 (p i j k l / ?S i j k l) ?eps (1 - ?eps)) * weight_of cw l"
  have nz: "?S i j k l \<noteq> 0" if "i < d1" "j < d2" "k < d3" "l < d4" for i j k l
  proof -
    have "channel_sum ?fmt d2 d4 (tab4 d1 d2 d3 d4 p) i j k l \<noteq> 0"
      using assms(6) that unfolding channel_sums_nonzero_def by blast
    then show ?thesis by (simp add: channel_sum_tab [OF that])
  qed
  have "tab4 d1 d2 d3 d4 (\<lambda>i j k l.
         xtimes (xtimes (Fin (g i j k l))
                   (xlog (xclip1 (xdiv (p i j k l) (?S i j k l)) ?eps (1 - ?eps))))
           (Fin (weight_of cw l)))
      = tab4 d1 d2 d3 d4 (\<lambda>i j k l. Fin (?F i j k l))"
    by (rule tab4_cong) (rule crossentropy_entry_finite [OF nz assms(7)])
  then have "categorical_crossentropy (tab4 d1 d2 d3 d4 g) (tab4 d1 d2 d3 d4 p) cw backend
      = xneg (xmean4 (tab4 d1 d2 d3 d4 (\<lambda>i j k l. Fin (?F i j k l))))"
    by (simp only: categorical_crossentropy_tab [OF assms(1,3)])
  also have "\<dots> = Fin (- (sum4 d1 d2 d3 d4 ?F / real (d1 * d2 * d3 * d4)))"
    by (simp only: xmean4_tab_Fin [OF assms(2-5)] xneg.simps)
  also have "sum4 d1 d2 d3 d4 ?F
      = sum4 d1 d2 d3 d4 (\<lambda>i j k l.
          (let normalized = normalized_spec ?fmt d2 d4 (tab4 d1 d2 d3 d4 p) i j k l;
               clipped = clip1 normalized ?eps (1 - ?eps)
           in tab4 d1 d2 d3 d4 g ! i ! j ! k ! l * ln clipped * weight_of cw l))"
    by (rule sum4_cong) (simp add: normalized_spec_def channel_sum_tab Let_def)
  finally show ?thesis by (simp add: cce_spec_def)
qed

lemma normalize_tab_finite:
  assumes "0 < d2"
    and "channel_sums_nonzero fmt d1 d2 d3 d4 (tab4 d1 d2 d3 d4 p)"
  shows "(if fmt = ChannelsLast then div_sum_axis3 (tab4 d1 d2 d3 d4 p)
          else div_sum_axis1 (tab4 d1 d2 d3 d4 p))
     = tab4 d1 d2 d3 d4 (\<lambda>i j k l. Fin (normalized_spec fmt d2 d4 (tab4 d1 d2 d3 d4 p) i j k l))"
proof -
  have nz: "channel_sum fmt d2 d4 (tab4 d1 d2 d3 d4 p) i j k l \<noteq> 0"
    if "i < d1" "j < d2" "k < d3" "l < d4" for i j k l
    using assms(2) that by (simp add: channel_sums_nonzero_def)
  have "tab4 d1 d2 d3 d4 (\<lambda>i j k l. xdiv (p i j k l)
           (if fmt = ChannelsLast then (\<Sum>c<d4. p i j k c) else (\<Sum>c<d2. p i c k l)))
      = tab4 d1 d2 d3 d4 (\<lambda>i j k l. Fin (normalized_spec fmt d2 d4 (tab4 d1 d2 d3 d4 p) i j k l))"
  proof (rule tab4_cong)
    fix i j k l assume b: "i < d1" "j < d2" "k < d3" "l < d4"
    show "xdiv (p i j k l) (if fmt = ChannelsLast then (\<Sum>c<d4. p i j k c) else (\<Sum>c<d2. p i c k l))
        = Fin (normalized_spec fmt d2 d4 (tab4 d1 d2 d3 d4 p) i j k l)"
      using nz [OF b] b
      by (simp add: normalized_spec_def channel_sum_tab [OF b] xdiv_def)
  qed
  then show ?thesis
    by (cases fmt) (simp_all add: div_sum_axis3_tab div_sum_axis1_tab [OF assms(1)])
qed

lemma categorical_crossentropy_finite:
  assumes "shape4 d1 d2 d3 d4 gt" "shape4 d1 d2 d3 d4 pr"
    and "0 < d1" "0 < d2" "0 < d3" "0 < d4" "weights_ok d4 cw"
    and "channel_sums_nonzero (image_data_format backend) d1 d2 d3 d4 pr"
    and "0 < epsilon backend"
  shows "categorical_crossentropy gt pr cw backend
     = Fin (cce_spec (image_data_format backend) d1 d2 d3 d4 gt pr cw (epsilon backend))"
proof -
  define G where "G = (\<lambda>b h w c. gt ! b ! h ! w ! c)"
  define P where "P = (\<lambda>b h w c. pr ! b ! h ! w ! c)"
  have g: "tab4 d1 d2 d3 d4 G = gt" unfolding G_def by (rule shape4_tab [OF assms(1), symmetric])
  have p: "tab4 d1 d2 d3 d4 P = pr" unfolding P_def by (rule shape4_tab [OF assms(2), symmetric])
  have nz: "channel_sums_nonzero (image_data_format backend) d1 d2 d3 d4 (tab4 d1 d2 d3 d4 P)"
    using assms(8) by (simp only: p)
  show ?thesis
    using categorical_crossentropy_tab_finite [OF assms(7,3-6) nz assms(9), of G]
    by (simp only: g p)
qed

lemma normalize_finite:
  assumes "shape4 d1 d2 d3 d4 pr" "0 < d2"
    and "channel_sums_nonzero fmt d1 d2 d3 d4 pr"
  shows "(if fmt = ChannelsLast then div_sum_axis3 pr else div_sum_axis1 pr)
     = tab4 d1 d2 d3 d4 (\<lambda>i j k l. Fin (normalized_spec fmt d2 d4 pr i j k l))"
proof -
  define P where "P = (\<lambda>b h w c. pr ! b ! h ! w ! c)"
  have p: "tab4 d1 d2 d3 d4 P = pr" unfolding P_def by (rule shape4_tab [OF assms(1), symmetric])
  have nz: "channel_sums_nonzero fmt d1 d2 d3 d4 (tab4 d1 d2 d3 d4 P)"
    using assms(3) by (simp only: p)
  show ?thesis
    using normalize_tab_finite [OF assms(2) nz] by (simp only: p)
qed


section \<open>The metrics compute the formulas of the specification\<close>

text \<open>C2: for all \<open>gt\<close> and \<open>pr\<close> of shape (B, H, W, C), \<open>iou_score\<close> computes
  intersection = sum(gt * pr) over the reduction axes (height and width when
  \<open>per_image\<close> is true, batch, height and width otherwise, after the optional
  thresholding of \<open>pr\<close>), union = sum(gt + pr) over the same axes minus the
  intersection, score = (intersection + smooth) / (union + smooth), the mean over the
  batch axis when \<open>per_image\<close> is true, and at last the mean of score * class_weights
  over the class axis.\<close>

theorem iou_score_formula:
  assumes "shape4 B H W C gt" and "shape4 B H W C pr"
    and "0 < B" and "0 < H" and "0 < W" and "0 < C"
    and "weights_ok C class_weights"
  shows "iou_score gt pr class_weights smooth per_image threshold
           = iou_spec B H W C gt pr class_weights smooth per_image threshold"
  using assms by (simp add: iou_score_index)

theorem iou_score_formula_witness:
  "shape4 1 1 2 2 [[[[1, 0], [1/2, 1::real]]]] \<and> shape4 1 1 2 2 [[[[1, 1], [1, 0::real]]]]
   \<and> weights_ok 2 (PerClass [1, 2])
   \<and> iou_score [[[[1, 0], [1/2, 1]]]] [[[[1, 1], [1, 0]]]] (PerClass [1, 2]) 1 True None
       = iou_spec 1 1 2 2 [[[[1, 0], [1/2, 1]]]] [[[[1, 1], [1, 0]]]] (PerClass [1, 2]) 1 True None
   \<and> iou_spec 1 1 2 2 [[[[1, 0], [1/2, 1]]]] [[[[1, 1], [1, 0]]]] (PerClass [1, 2]) 1 True None
       = 3 / 4"
proof -
  have g: "shape4 1 1 2 2 [[[[1, 0], [1/2, 1::real]]]]"
    by (simp add: shape4_def shape3_def shape2_def)
  have p: "shape4 1 1 2 2 [[[[1, 1], [1, 0::real]]]]"
    by (simp add: shape4_def shape3_def shape2_def)
  have w: "weights_ok 2 (PerClass [1, 2])" by simp
  have v: "iou_spec 1 1 2 2 [[[[1, 0], [1/2, 1]]]] [[[[1, 1], [1, 0]]]] (PerClass [1, 2]) 1 True None
       = 3 / 4"
    by (simp add: iou_spec_def iou_class_spec_def thresholded_def numeral_2_eq_2)
  show ?thesis
    using iou_score_formula [OF g p _ _ _ _ w, of 1 True None] g p w v by simp
qed

text \<open>C3: for all \<open>gt\<close> and \<open>pr\<close> of shape (B, H, W, C) and every \<open>beta\<close>,
  \<open>f_score\<close> computes tp = sum(gt * pr) over the reduction axes (after the optional
  thresholding of \<open>pr\<close>), fp = sum(pr) - tp, fn = sum(gt) - tp, and returns the
  class-weighted mean (after the batch mean when \<open>per_image\<close> is true) of
  ((1 + beta^2) * tp + smooth) / ((1 + beta^2) * tp + beta^2 * fn + fp + smooth).\<close>

theorem f_score_formula:
  assumes "shape4 B H W C gt" and "shape4 B H W C pr"
    and "0 < B" and "0 < H" and "0 < W" and "0 < C"
    and "weights_ok C class_weights"
  shows "f_score gt pr class_weights beta smooth per_image threshold
           = f_spec B H W C gt pr class_weights beta smooth per_image threshold"
  using assms by (simp add: f_score_index)

theorem f_score_formula_witness:
  "shape4 1 1 2 2 [[[[1, 0], [1/2, 1::real]]]] \<and> shape4 1 1 2 2 [[[[1, 1], [1, 0::real]]]]
   \<and> weights_ok 2 (PerClass [1, 2])
   \<and> f_score [[[[1, 0], [1/2, 1]]]] [[[[1, 1], [1, 0]]]] (PerClass [1, 2]) 2 1 False (Some (1/2))
       = f_spec 1 1 2 2 [[[[1, 0], [1/2, 1]]]] [[[[1, 1], [1, 0]]]] (PerClass [1, 2]) 2 1 False (Some (1/2))
   \<and> f_spec 1 1 2 2 [[[[1, 0], [1/2, 1]]]] [[[[1, 1], [1, 0]]]] (PerClass [1, 2]) 2 1 False (Some (1/2))
       = 23 / 36"
proof -
  have g: "shape4 1 1 2 2 [[[[1, 0], [1/2, 1::real]]]]"
    by (simp add: shape4_def shape3_def shape2_def)
  have p: "shape4 1 1 2 2 [[[[1, 1], [1, 0::real]]]]"
    by (simp add: shape4_def shape3_def shape2_def)
  have w: "weights_ok 2 (PerClass [1, 2])" by simp
  have v: "f_spec 1 1 2 2 [[[[1, 0], [1/2, 1]]]] [[[[1, 1], [1, 0]]]] (PerClass [1, 2]) 2 1 False (Some (1/2))
       = 23 / 36"
    by (simp add: f_spec_def f_class_spec_def thresholded_def binarize1_def numeral_2_eq_2)
  show ?thesis
    using f_score_formula [OF g p _ _ _ _ w, of 2 1 False "Some (1/2)"] g p w v by simp
qed

text \<open>C5: for every threshold \<open>t\<close> that is not \<open>None\<close>, \<open>iou_score\<close> and \<open>f_score\<close>
  with \<open>threshold = t\<close> equal the same call with \<open>threshold = None\<close> on the binarized
  prediction, in which every entry of \<open>pr\<close> is replaced by 1 if it is strictly
  greater than \<open>t\<close> and by 0 otherwise: the thresholding step of the source,
  \<open>cast(greater(pr, t))\<close>, is that binarized prediction, and without a threshold the
  prediction is left as it is.\<close>

theorem threshold_binarizes:
  "apply_threshold (Some t) pr = binarize t pr
   \<and> apply_threshold None pr = pr
   \<and> cast (greater pr t) = binarize t pr
   \<and> iou_score gt pr class_weights smooth per_image (Some t)
     = iou_score gt (binarize t pr) class_weights smooth per_image None
   \<and> f_score gt pr class_weights beta smooth per_image (Some t)
     = f_score gt (binarize t pr) class_weights beta smooth per_image None"
proof -
  have a: "apply_threshold (Some t) pr = binarize t pr" by (rule apply_threshold_binarize)
  have b: "apply_threshold None pr = pr" for pr by (simp add: apply_threshold_def)
  have c: "cast (greater pr t) = binarize t pr"
    using a by (simp add: apply_threshold_def)
  show ?thesis
    by (simp add: a b c iou_score_def f_score_def)
qed

text \<open>C6: for \<open>gt\<close> and \<open>pr\<close> the same tensor filled with 1s, \<open>threshold = None\<close> and
  \<open>class_weights = 1\<close>, \<open>iou_score\<close> is 1 and \<open>f_score\<close> is 1 for every \<open>beta\<close>:
  with the smooth term in the numerator and in the denominator the value is exactly 1.
  It holds for every \<open>smooth\<close> that is not negative, the default 1 among them.\<close>

theorem ones_score_one:
  assumes "0 < B" and "0 < H" and "0 < W" and "0 < C" and "0 \<le> smooth"
  shows "iou_score (ones4 B H W C) (ones4 B H W C) (Scalar 1) smooth per_image None = 1
       \<and> f_score (ones4 B H W C) (ones4 B H W C) (Scalar 1) beta smooth per_image None = 1"
proof -
  have i: "iou_channels (ones4 B H W C) (ones4 B H W C) smooth per_image None = tab1 C (\<lambda>c. 1)"
    unfolding ones4_tab iou_channels_tab [OF assms(1-3)]
    by (rule tab1_cong) (simp add: ones_iou_class assms)
  have f: "f_channels (ones4 B H W C) (ones4 B H W C) beta smooth per_image None = tab1 C (\<lambda>c. 1)"
    unfolding ones4_tab f_channels_tab [OF assms(1-3)]
    by (rule tab1_cong) (simp add: ones_f_class assms)
  show ?thesis
    using assms(4) by (simp add: iou_score_channels f_score_channels i f map_tab1 mean1_tab)
qed

theorem ones_score_one_witness:
  "ones4 1 1 2 2 = [[[[1, 1], [1, 1]]]]
   \<and> iou_score [[[[1, 1], [1, 1]]]] [[[[1, 1], [1, 1]]]] (Scalar 1) SMOOTH True None = 1
   \<and> f_score [[[[1, 1], [1, 1]]]] [[[[1, 1], [1, 1]]]] (Scalar 1) 2 SMOOTH True None = 1"
proof -
  have o: "ones4 1 1 2 2 = [[[[1, 1], [1, 1]]]]"
    by (simp add: ones4_def numeral_2_eq_2)
  show ?thesis
    using ones_score_one [of 1 1 2 2 1 True 2, unfolded o] o by (simp add: SMOOTH_def)
qed

text \<open>C7: for disjoint \<open>gt\<close> and \<open>pr\<close> (the elementwise product is zero everywhere, so
  every intersection is 0), with \<open>threshold = None\<close> and \<open>class_weights = 1\<close>,
  \<open>iou_score\<close> is the mean over the images and the classes of
  \<open>smooth / (union + smooth)\<close>, which tends to 0 as the union grows: when \<open>smooth\<close> is
  not negative and every union is at least \<open>M > 0\<close>, the score lies between 0 and
  \<open>smooth / (M + smooth)\<close>, and this bound tends to 0 as \<open>M\<close> grows.\<close>

theorem iou_score_disjoint:
  assumes "shape4 B H W C gt" and "shape4 B H W C pr"
    and "0 < B" and "0 < H" and "0 < W" and "0 < C"
    and "disjoint4 gt pr"
  shows "iou_score gt pr (Scalar 1) smooth per_image None
           = disjoint_iou_spec B H W C gt pr smooth per_image
       \<and> (0 \<le> smooth \<and> 0 < M \<and> (\<forall>c<C. \<forall>b<B. M \<le> union_spec B H W gt pr per_image b c)
            \<longrightarrow> 0 \<le> iou_score gt pr (Scalar 1) smooth per_image None
              \<and> iou_score gt pr (Scalar 1) smooth per_image None \<le> smooth / (M + smooth))
       \<and> ((\<lambda>M. smooth / (M + smooth)) \<longlongrightarrow> 0) at_top"
proof -
  have e: "iou_score gt pr (Scalar 1) smooth per_image None
           = disjoint_iou_spec B H W C gt pr smooth per_image"
    by (rule disjoint_iou_score [OF assms(1-5,7)])
  show ?thesis
    unfolding e
    using disjoint_iou_bounds [OF assms(3,6), of smooth M H W gt pr per_image]
      smooth_ratio_tendsto [of smooth]
    by blast
qed

theorem iou_score_disjoint_witness:
  "shape4 1 1 2 2 [[[[1, 0], [0, 1::real]]]] \<and> shape4 1 1 2 2 [[[[0, 1], [1, 0::real]]]]
   \<and> disjoint4 [[[[1, 0], [0, 1]]]] [[[[0, 1], [1, 0]]]]
   \<and> union_spec 1 1 2 [[[[1, 0], [0, 1]]]] [[[[0, 1], [1, 0]]]] True 0 0 = 2
   \<and> union_spec 1 1 2 [[[[1, 0], [0, 1]]]] [[[[0, 1], [1, 0]]]] True 0 1 = 2
   \<and> iou_score [[[[1, 0], [0, 1]]]] [[[[0, 1], [1, 0]]]] (Scalar 1) 1 True None = 1 / 3
   \<and> iou_score [[[[1, 0], [0, 1]]]] [[[[0, 1], [1, 0]]]] (Scalar 1) 1 True None \<le> 1 / (2 + 1)"
proof -
  have g: "shape4 1 1 2 2 [[[[1, 0], [0, 1::real]]]]"
    by (simp add: shape4_def shape3_def shape2_def)
  have p: "shape4 1 1 2 2 [[[[0, 1], [1, 0::real]]]]"
    by (simp add: shape4_def shape3_def shape2_def)
  have d: "disjoint4 [[[[1, 0], [0, 1]]]] [[[[0, 1], [1, 0]]]]"
    by (simp add: disjoint4_def flat4_def ew4_def ew3_def ew2_def ew1_def)
  have u: "\<forall>c<2. \<forall>b<1. 2 \<le> union_spec 1 1 2 [[[[1, 0], [0, 1]]]] [[[[0, 1], [1, 0]]]] True b c"
    by (simp add: union_spec_def numeral_2_eq_2 less_Suc_eq)
  have v: "disjoint_iou_spec 1 1 2 2 [[[[1, 0], [0, 1]]]] [[[[0, 1], [1, 0]]]] 1 True = 1 / 3"
    by (simp add: disjoint_iou_spec_def union_spec_def numeral_2_eq_2)
  have u0: "union_spec 1 1 2 [[[[1, 0], [0, 1]]]] [[[[0, 1], [1, 0]]]] True 0 0 = 2"
    and u1: "union_spec 1 1 2 [[[[1, 0], [0, 1]]]] [[[[0, 1], [1, 0]]]] True 0 1 = 2"
    by (simp_all add: union_spec_def numeral_2_eq_2)
  show ?thesis
    using iou_score_disjoint [OF g p _ _ _ _ d, of 1 True 2] g p d u v u0 u1 by simp
qed

text \<open>C8: for a list \<open>w\<close> of C class weights, \<open>iou_score\<close> and \<open>f_score\<close> are linear in
  \<open>w\<close>: the result is the mean over the classes of \<open>score[c] * w[c]\<close>, so multiplying
  the weight of one class by \<open>k\<close> multiplies the contribution of that class by \<open>k\<close>
  and leaves the others as they are.\<close>

theorem class_weights_linear:
  assumes "shape4 B H W C gt" and "shape4 B H W C pr"
    and "0 < B" and "0 < H" and "0 < W" and "0 < C"
    and "length ws = C" and "length vs = C" and "c < C"
  shows "iou_score gt pr (PerClass ws) smooth per_image threshold
           = (\<Sum>i<C. iou_channels gt pr smooth per_image threshold ! i * ws ! i) / real C
       \<and> iou_score gt pr (PerClass (ws[c := k * ws ! c])) smooth per_image threshold
           = iou_score gt pr (PerClass ws) smooth per_image threshold
             + (k - 1) * (iou_channels gt pr smooth per_image threshold ! c * ws ! c / real C)
       \<and> iou_score gt pr (PerClass (map2 (\<lambda>x y. a * x + b * y) ws vs)) smooth per_image threshold
           = a * iou_score gt pr (PerClass ws) smooth per_image threshold
             + b * iou_score gt pr (PerClass vs) smooth per_image threshold
       \<and> f_score gt pr (PerClass ws) beta smooth per_image threshold
           = (\<Sum>i<C. f_channels gt pr beta smooth per_image threshold ! i * ws ! i) / real C
       \<and> f_score gt pr (PerClass (ws[c := k * ws ! c])) beta smooth per_image threshold
           = f_score gt pr (PerClass ws) beta smooth per_image threshold
             + (k - 1) * (f_channels gt pr beta smooth per_image threshold ! c * ws ! c / real C)
       \<and> f_score gt pr (PerClass (map2 (\<lambda>x y. a * x + b * y) ws vs)) beta smooth per_image threshold
           = a * f_score gt pr (PerClass ws) beta smooth per_image threshold
             + b * f_score gt pr (PerClass vs) beta smooth per_image threshold"
proof -
  note li = length_iou_channels [OF assms(1-5), of smooth per_image threshold]
  note lf = length_f_channels [OF assms(1-5), of beta smooth per_image threshold]
  show ?thesis
    unfolding iou_score_channels f_score_channels
    using wmean_sum [OF li assms(7)] wmean_update [OF li assms(7,9)] wmean_linear [OF li assms(7,8)]
      wmean_sum [OF lf assms(7)] wmean_update [OF lf assms(7,9)] wmean_linear [OF lf assms(7,8)]
    by blast
qed

theorem class_weights_linear_witness:
  "shape4 1 1 2 2 [[[[1, 0], [1/2, 1::real]]]] \<and> shape4 1 1 2 2 [[[[1, 1], [1, 0::real]]]]
   \<and> iou_score [[[[1, 0], [1/2, 1]]]] [[[[1, 1], [1, 0]]]] (PerClass [1, 6]) 1 True None
       = iou_score [[[[1, 0], [1/2, 1]]]] [[[[1, 1], [1, 0]]]] (PerClass [1, 2]) 1 True None
         + (3 - 1) * (iou_channels [[[[1, 0], [1/2, 1]]]] [[[[1, 1], [1, 0]]]] 1 True None ! 1 * 2 / 2)
   \<and> f_score [[[[1, 0], [1/2, 1]]]] [[[[1, 1], [1, 0]]]] (PerClass [17, 9]) 2 1 True None
       = 2 * f_score [[[[1, 0], [1/2, 1]]]] [[[[1, 1], [1, 0]]]] (PerClass [1, 2]) 2 1 True None
         + 5 * f_score [[[[1, 0], [1/2, 1]]]] [[[[1, 1], [1, 0]]]] (PerClass [3, 1]) 2 1 True None"
proof -
  have g: "shape4 1 1 2 2 [[[[1, 0], [1/2, 1::real]]]]"
    by (simp add: shape4_def shape3_def shape2_def)
  have p: "shape4 1 1 2 2 [[[[1, 1], [1, 0::real]]]]"
    by (simp add: shape4_def shape3_def shape2_def)
  show ?thesis
    using class_weights_linear [OF g p, of "[1, 2]" "[3, 1]" 1 1 True None 3 2 5 2] g p
    by simp
qed

text \<open>C10: for \<open>gt\<close> and \<open>pr\<close> of the same shape and \<open>threshold = None\<close>, \<open>iou_score\<close>
  is symmetric in its two tensors.\<close>

theorem iou_score_symmetric:
  assumes "shape4 B H W C gt" and "shape4 B H W C pr"
  shows "iou_score gt pr class_weights smooth per_image None
           = iou_score pr gt class_weights smooth per_image None"
proof -
  have m: "ew4 (*) gt pr = ew4 (*) pr gt" by (rule ew4_commute) simp
  have a: "ew4 (+) gt pr = ew4 (+) pr gt" by (rule ew4_commute) simp
  show ?thesis by (simp add: iou_score_def apply_threshold_def m a)
qed

theorem iou_score_symmetric_witness:
  "shape4 1 1 2 2 [[[[1, 0], [1/2, 1::real]]]] \<and> shape4 1 1 2 2 [[[[1, 1], [1, 0::real]]]]
   \<and> iou_score [[[[1, 0], [1/2, 1]]]] [[[[1, 1], [1, 0]]]] (PerClass [1, 2]) 1 True None
       = iou_score [[[[1, 1], [1, 0]]]] [[[[1, 0], [1/2, 1]]]] (PerClass [1, 2]) 1 True None"
proof -
  have g: "shape4 1 1 2 2 [[[[1, 0], [1/2, 1::real]]]]"
    by (simp add: shape4_def shape3_def shape2_def)
  have p: "shape4 1 1 2 2 [[[[1, 1], [1, 0::real]]]]"
    by (simp add: shape4_def shape3_def shape2_def)
  show ?thesis
    using iou_score_symmetric [OF g p, of "PerClass [1, 2]" 1 True] g p by simp
qed

section \<open>Properties of the losses\<close>

text \<open>C1: \<open>categorical_focal_loss\<close> is claimed to equal minus the mean of
  \<open>alpha * gt * (1 - pr)^gamma * log(pr)\<close> on the clipped \<open>pr\<close>, with \<open>gt\<close> to the
  first power. The source multiplies by \<open>gt\<close> twice, in \<open>cross_entropy\<close> and again in
  \<open>weight\<close>, so its value has \<open>gt\<close> squared: with the single entry \<open>gt = pr = 1/2\<close>,
  \<open>gamma = 2\<close> and \<open>alpha = 1/4\<close> the source gives \<open>ln 2 / 64\<close> and the formula
  \<open>ln 2 / 32\<close>.\<close>

theorem categorical_focal_loss_squares_gt:
  "categorical_focal_loss [[[[1/2]]]] [[[[1/2]]]] 2 (1/4)
       \<lparr>epsilon = 1/10000000, image_data_format = ChannelsLast\<rparr> = ln 2 / 64
   \<and> categorical_focal_loss_spec 1 1 1 1 [[[[1/2]]]] [[[[1/2]]]] 2 (1/4) (1/10000000) = ln 2 / 32
   \<and> categorical_focal_loss [[[[1/2]]]] [[[[1/2]]]] 2 (1/4)
       \<lparr>epsilon = 1/10000000, image_data_format = ChannelsLast\<rparr>
     \<noteq> categorical_focal_loss_spec 1 1 1 1 [[[[1/2]]]] [[[[1/2]]]] 2 (1/4) (1/10000000)"
proof -
  have c: "clip1 (1/2) (1/10000000) (9999999/10000000) = 1/2"
    by (simp add: clip1_def)
  have l: "ln (1/2 :: real) = - ln 2" by (simp add: ln_div)
  have a: "categorical_focal_loss [[[[1/2]]]] [[[[1/2]]]] 2 (1/4)
       \<lparr>epsilon = 1/10000000, image_data_format = ChannelsLast\<rparr> = ln 2 / 64"
    by (simp add: categorical_focal_loss_def clip_def log4_def pow4_def muls4_def rsub4_def neg4_def
        un4_def ew4_def ew3_def ew2_def ew1_def mean4_def flat4_def c l power2_eq_square)
  have b: "categorical_focal_loss_spec 1 1 1 1 [[[[1/2]]]] [[[[1/2]]]] 2 (1/4) (1/10000000) = ln 2 / 32"
    by (simp add: categorical_focal_loss_spec_def sum4_def c l power2_eq_square)
  have "ln (2::real) \<noteq> 0" by simp
  then show ?thesis unfolding a b by simp
qed

text \<open>C4, as amended: for all \<open>gt\<close> and \<open>pr\<close> of the same shape whose sum along the
  channel axis is not zero at any position, and \<open>epsilon > 0\<close>,
  \<open>categorical_crossentropy\<close> divides \<open>pr\<close> by its sum along the channel axis, so
  that the class probabilities of each sample sum to 1, clips the result to
  [eps, 1 - eps] (for \<open>eps \<le> 1/2\<close>), so that the logarithm is taken of a positive
  number, and returns minus the mean of \<open>gt * log(pr) * class_weights\<close>, a finite
  number.\<close>

theorem categorical_crossentropy_formula:
  assumes "shape4 d1 d2 d3 d4 gt" and "shape4 d1 d2 d3 d4 pr"
    and "0 < d1" and "0 < d2" and "0 < d3" and "0 < d4"
    and "weights_ok d4 class_weights"
    and "channel_sums_nonzero (image_data_format backend) d1 d2 d3 d4 pr"
    and "0 < epsilon backend"
  shows "categorical_crossentropy gt pr class_weights backend
           = Fin (cce_spec (image_data_format backend) d1 d2 d3 d4 gt pr class_weights
                    (epsilon backend))
       \<and> (if image_data_format backend = ChannelsLast
            then div_sum_axis3 pr else div_sum_axis1 pr)
           = tab4 d1 d2 d3 d4
               (\<lambda>i j k l. Fin (normalized_spec (image_data_format backend) d2 d4 pr i j k l))
       \<and> (i < d1 \<and> j < d2 \<and> k < d3 \<and> l < d4 \<longrightarrow>
            (if image_data_format backend = ChannelsLast
             then (\<Sum>c<d4. normalized_spec ChannelsLast d2 d4 pr i j k c)
             else (\<Sum>c<d2. normalized_spec ChannelsFirst d2 d4 pr i c k l)) = 1)
       \<and> xclip1 (Fin x) (epsilon backend) (1 - epsilon backend)
           = Fin (clip1 x (epsilon backend) (1 - epsilon backend))
       \<and> 0 < clip1 x (epsilon backend) (1 - epsilon backend)
       \<and> (epsilon backend \<le> 1 / 2 \<longrightarrow>
            epsilon backend \<le> clip1 x (epsilon backend) (1 - epsilon backend)
          \<and> clip1 x (epsilon backend) (1 - epsilon backend) \<le> 1 - epsilon backend)"
proof -
  have a: "categorical_crossentropy gt pr class_weights backend
           = Fin (cce_spec (image_data_format backend) d1 d2 d3 d4 gt pr class_weights
                    (epsilon backend))"
    by (rule categorical_crossentropy_finite [OF assms])
  have b: "(if image_data_format backend = ChannelsLast
            then div_sum_axis3 pr else div_sum_axis1 pr)
           = tab4 d1 d2 d3 d4
               (\<lambda>i j k l. Fin (normalized_spec (image_data_format backend) d2 d4 pr i j k l))"
    by (rule normalize_finite [OF assms(2,4,8)])
  have c: "(if image_data_format backend = ChannelsLast
             then (\<Sum>c<d4. normalized_spec ChannelsLast d2 d4 pr i j k c)
             else (\<Sum>c<d2. normalized_spec ChannelsFirst d2 d4 pr i c k l)) = 1"
    if "i < d1 \<and> j < d2 \<and> k < d3 \<and> l < d4"
  proof (rule normalized_sum_one)
    show "channel_sum (image_data_format backend) d2 d4 pr i j k l \<noteq> 0"
      using assms(8) that unfolding channel_sums_nonzero_def by blast
  qed
  have d: "xclip1 (Fin x) (epsilon backend) (1 - epsilon backend)
           = Fin (clip1 x (epsilon backend) (1 - epsilon backend))"
    by (rule xclip1_Fin)
  have e: "0 < clip1 x (epsilon backend) (1 - epsilon backend)"
    by (rule clip1_pos [OF assms(9)])
  have f: "epsilon backend \<le> clip1 x (epsilon backend) (1 - epsilon backend)
          \<and> clip1 x (epsilon backend) (1 - epsilon backend) \<le> 1 - epsilon backend"
    if "epsilon backend \<le> 1 / 2"
    by (rule clip1_bounds [OF that])
  show ?thesis using a b c d e f by blast
qed

theorem categorical_crossentropy_formula_witness:
  "shape4 1 1 1 2 [[[[1, 0::real]]]] \<and> shape4 1 1 1 2 [[[[1, 3::real]]]]
   \<and> weights_ok 2 (PerClass [1, 2])
   \<and> channel_sums_nonzero ChannelsLast 1 1 1 2 [[[[1, 3]]]]
   \<and> categorical_crossentropy [[[[1, 0]]]] [[[[1, 3]]]] (PerClass [1, 2])
        \<lparr>epsilon = 1/10, image_data_format = ChannelsLast\<rparr> = Fin (ln 4 / 2)
   \<and> div_sum_axis3 [[[[1, 3]]]] = [[[[Fin (1/4), Fin (3/4)]]]]
   \<and> (\<Sum>c<2. normalized_spec ChannelsLast 1 2 [[[[1, 3]]]] 0 0 0 c) = 1
   \<and> 1/10 \<le> clip1 0 (1/10) (1 - 1/10) \<and> clip1 0 (1/10) (1 - 1/10) \<le> 1 - 1/10"
proof -
  have g: "shape4 1 1 1 2 [[[[1, 0::real]]]]"
    by (simp add: shape4_def shape3_def shape2_def)
  have p: "shape4 1 1 1 2 [[[[1, 3::real]]]]"
    by (simp add: shape4_def shape3_def shape2_def)
  have w: "weights_ok 2 (PerClass [1, 2])" by simp
  have s: "channel_sums_nonzero ChannelsLast 1 1 1 2 [[[[1, 3]]]]"
    by (simp add: channel_sums_nonzero_def channel_sum_def numeral_2_eq_2 less_Suc_eq)
  have v: "cce_spec ChannelsLast 1 1 1 2 [[[[1, 0]]]] [[[[1, 3]]]] (PerClass [1, 2]) (1/10) = ln 4 / 2"
    by (simp add: cce_spec_def sum4_def normalized_spec_def channel_sum_def clip1_def
        numeral_2_eq_2 ln_div)
  have n: "tab4 1 1 1 2 (\<lambda>i j k l. Fin (normalized_spec ChannelsLast 1 2 [[[[1, 3]]]] i j k l))
      = [[[[Fin (1/4), Fin (3/4)]]]]"
    by (simp add: tab4_def tab3_def tab2_def tab1_def normalized_spec_def channel_sum_def
        numeral_2_eq_2)
  show ?thesis
    using categorical_crossentropy_formula [OF g p _ _ _ _ w,
        of "\<lparr>epsilon = 1/10, image_data_format = ChannelsLast\<rparr>" 0 0 0 0 0] g p w s v n
    by simp
qed

text \<open>The claim as it was stated, for every \<open>pr\<close>, fails where a sum along the
  channel axis is zero: for the pixel \<open>[0, 0]\<close> the division gives NaN twice, which
  does not sum to 1, the clipping leaves NaN as it is, and the loss is NaN, not the
  number the formula gives.\<close>

theorem categorical_crossentropy_zero_sum_counterexample:
  "shape4 1 1 1 2 [[[[1, 0::real]]]] \<and> shape4 1 1 1 2 [[[[0, 0::real]]]]
   \<and> div_sum_axis3 [[[[0, 0]]]] = [[[[NaN, NaN]]]]
   \<and> xsum_list [NaN, NaN] \<noteq> Fin 1
   \<and> categorical_crossentropy [[[[1, 0]]]] [[[[0, 0]]]] (Scalar 1)
        \<lparr>epsilon = 1/10000000, image_data_format = ChannelsLast\<rparr> = NaN
   \<and> categorical_crossentropy [[[[1, 0]]]] [[[[0, 0]]]] (Scalar 1)
        \<lparr>epsilon = 1/10000000, image_data_format = ChannelsLast\<rparr>
       \<noteq> Fin (cce_spec ChannelsLast 1 1 1 2 [[[[1, 0]]]] [[[[0, 0]]]] (Scalar 1) (1/10000000))"
  by (simp add: shape4_def shape3_def shape2_def div_sum_axis3_def xdiv_def xsum_list_def
      categorical_crossentropy_def xclip_def xclip1_def xlog4_def fin4_def un4_def
      bin4_def bin3_def bin2_def bin1_def xmulw4_def xmean4_def xflat4_def xdiv_count_def)

text \<open>C9: for every \<open>gt\<close> with values in [0, 1], \<open>focal_loss(gt, gt)\<close> is small, near
  the least value that \<open>focal_loss(gt, _)\<close> can take. With \<open>alpha\<close> and \<open>gamma\<close> not
  negative and \<open>0 < eps \<le> 1/5\<close>: no prediction has a negative loss and the loss at
  \<open>pr = gt\<close> is at most \<open>alpha / 2\<close>, so it is within \<open>alpha / 2\<close> of the least value;
  for binary \<open>gt\<close> it is exactly \<open>alpha * eps^gamma * (- log(1 - eps))\<close>, which is the
  least value over all predictions of that shape, and every entry of the two clipped
  terms is bounded by it.\<close>

theorem focal_loss_self_small:
  assumes "shape4 B H W C gt" and "shape4 B H W C pr"
    and "0 < B" and "0 < H" and "0 < W" and "0 < C"
    and "0 \<le> alpha" and "0 \<le> gamma"
    and "0 < epsilon backend" and "epsilon backend \<le> 1 / 5"
    and "unit_range4 gt"
  shows "0 \<le> focal_loss gt pr gamma alpha backend
       \<and> focal_loss gt gt gamma alpha backend \<le> alpha / 2
       \<and> (binary4 gt \<longrightarrow>
            focal_loss gt gt gamma alpha backend
              = alpha * epsilon backend powr gamma * (- ln (1 - epsilon backend))
          \<and> focal_loss gt gt gamma alpha backend \<le> focal_loss gt pr gamma alpha backend
          \<and> (\<forall>x \<in> set (flat4 gt).
                focal_entry alpha gamma (epsilon backend) x x
                  \<le> alpha * epsilon backend powr gamma * (- ln (1 - epsilon backend))
              \<and> focal_entry alpha gamma (epsilon backend) (1 - x) (1 - x)
                  \<le> alpha * epsilon backend powr gamma * (- ln (1 - epsilon backend))))"
proof -
  have e2: "epsilon backend \<le> 1 / 2" using assms(10) by simp
  have a: "0 \<le> focal_loss gt pr gamma alpha backend"
    by (rule focal_loss_nonneg [OF assms(1,2,7,9) e2])
  have b: "focal_loss gt gt gamma alpha backend \<le> alpha / 2"
    by (rule focal_loss_self_le [OF assms(1,3-11)])
  have c: "focal_loss gt gt gamma alpha backend
              = alpha * epsilon backend powr gamma * (- ln (1 - epsilon backend))"
    if "binary4 gt"
    by (rule focal_loss_binary_value [OF assms(1,3-6,9) e2 that])
  have d: "focal_loss gt gt gamma alpha backend \<le> focal_loss gt pr gamma alpha backend"
    if "binary4 gt"
    by (rule focal_loss_binary_least [OF assms(1,2,7-9) e2 that])
  have e: "focal_entry alpha gamma (epsilon backend) x x
                  \<le> alpha * epsilon backend powr gamma * (- ln (1 - epsilon backend))
              \<and> focal_entry alpha gamma (epsilon backend) (1 - x) (1 - x)
                  \<le> alpha * epsilon backend powr gamma * (- ln (1 - epsilon backend))"
    if "binary4 gt" "x \<in> set (flat4 gt)" for x
  proof -
    have x: "x = 0 \<or> x = 1" using that by (simp add: binary4_def)
    then have x': "1 - x = 0 \<or> 1 - x = 1" by auto
    show ?thesis
      using focal_entry_binary_le [OF x assms(7,9) e2] focal_entry_binary_le [OF x' assms(7,9) e2]
      by simp
  qed
  show ?thesis using a b c d e by blast
qed


theorem focal_loss_self_small_witness:
  "shape4 1 1 1 2 [[[[1, 0::real]]]] \<and> shape4 1 1 1 2 [[[[1/2, 1/2::real]]]]
   \<and> unit_range4 [[[[1, 0]]]] \<and> binary4 [[[[1, 0]]]]
   \<and> focal_loss [[[[1, 0]]]] [[[[1, 0]]]] 2 (1/4) \<lparr>epsilon = 1/10000000, image_data_format = ChannelsLast\<rparr>
       = 1/4 * (1/10000000) powr 2 * (- ln (1 - 1/10000000))
   \<and> focal_loss [[[[1, 0]]]] [[[[1, 0]]]] 2 (1/4) \<lparr>epsilon = 1/10000000, image_data_format = ChannelsLast\<rparr>
       \<le> focal_loss [[[[1, 0]]]] [[[[1/2, 1/2]]]] 2 (1/4) \<lparr>epsilon = 1/10000000, image_data_format = ChannelsLast\<rparr>
   \<and> focal_loss [[[[1, 0]]]] [[[[1, 0]]]] 2 (1/4) \<lparr>epsilon = 1/10000000, image_data_format = ChannelsLast\<rparr>
       \<le> (1/4) / 2"
proof -
  have g: "shape4 1 1 1 2 [[[[1, 0::real]]]]"
    by (simp add: shape4_def shape3_def shape2_def)
  have p: "shape4 1 1 1 2 [[[[1/2, 1/2::real]]]]"
    by (simp add: shape4_def shape3_def shape2_def)
  have u: "unit_range4 [[[[1, 0]]]]" by (simp add: unit_range4_def flat4_def)
  have b: "binary4 [[[[1, 0]]]]" by (simp add: binary4_def flat4_def)
  show ?thesis
    using focal_loss_self_small [OF g p _ _ _ _ _ _ _ _ u,
        of "1/4" 2 "\<lparr>epsilon = 1/10000000, image_data_format = ChannelsLast\<rparr>"] g p u b
    by simp
qed

section \<open>Further facts about the focal loss\<close>

text \<open>Where \<open>gt\<close> is 0 or 1 the square of \<open>gt\<close> is \<open>gt\<close>, and
  \<open>categorical_focal_loss\<close> agrees with the formula of the specification.\<close>

lemma categorical_focal_loss_shape:
  assumes "shape4 B H W C gt" "shape4 B H W C pr"
  shows "categorical_focal_loss gt pr gamma alpha backend
     = sum4 B H W C (\<lambda>b h w c. focal_entry alpha gamma (epsilon backend)
                       (gt ! b ! h ! w ! c) (pr ! b ! h ! w ! c)) / real (B * H * W * C)"
  using categorical_focal_loss_tab [of B H W C "\<lambda>b h w c. gt ! b ! h ! w ! c" "\<lambda>b h w c. pr ! b ! h ! w ! c"]
    shape4_tab [OF assms(1), symmetric] shape4_tab [OF assms(2), symmetric]
  by simp

lemma sum4_uminus: "sum4 B H W C (\<lambda>b h w c. - f b h w c) = - sum4 B H W C f"
  by (simp add: sum4_def sum_negf)

lemma categorical_focal_loss_binary:
  assumes "shape4 B H W C gt" "shape4 B H W C pr" "binary4 gt"
  shows "categorical_focal_loss gt pr gamma alpha backend
           = categorical_focal_loss_spec B H W C gt pr gamma alpha (epsilon backend)"
proof -
  have "sum4 B H W C (\<lambda>b h w c. focal_entry alpha gamma (epsilon backend)
                       (gt ! b ! h ! w ! c) (pr ! b ! h ! w ! c))
      = sum4 B H W C (\<lambda>b h w c. - (let g = gt ! b ! h ! w ! c;
               p = clip1 (pr ! b ! h ! w ! c) (epsilon backend) (1 - epsilon backend)
           in alpha * g * (1 - p) powr gamma * ln p))"
  proof (rule sum4_cong)
    fix b h w c assume i: "b < B" "h < H" "w < W" "c < C"
    have "gt ! b ! h ! w ! c \<in> set (flat4 gt)" by (rule flat4_entry [OF assms(1) i])
    then have "gt ! b ! h ! w ! c = 0 \<or> gt ! b ! h ! w ! c = 1"
      using assms(3) by (simp add: binary4_def)
    then show "focal_entry alpha gamma (epsilon backend) (gt ! b ! h ! w ! c) (pr ! b ! h ! w ! c)
      = - (let g = gt ! b ! h ! w ! c;
               p = clip1 (pr ! b ! h ! w ! c) (epsilon backend) (1 - epsilon backend)
           in alpha * g * (1 - p) powr gamma * ln p)"
      by (auto simp add: focal_entry_def Let_def)
  qed
  then show ?thesis
    unfolding categorical_focal_loss_shape [OF assms(1,2)] categorical_focal_loss_spec_def sum4_uminus
    by simp
qed

text \<open>For \<open>gt\<close> strictly between 0 and 1 the prediction \<open>pr = gt\<close> need not give
  the least loss: with the single entry \<open>gt = 3/4\<close>, \<open>gamma = 2\<close> and \<open>alpha = 1/4\<close>
  the prediction \<open>2/3\<close> has a smaller loss than the prediction \<open>3/4\<close>.\<close>

lemma pow3_pow2: "289 * ln (3::real) < 468 * ln 2"
proof -
  have "(3::int) ^ 289 < 2 ^ 468" by code_simp
  then have "(of_int (3 ^ 289) :: real) < of_int (2 ^ 468)" by (simp only: of_int_less_iff)
  then have r: "(3::real) ^ 289 < 2 ^ 468" by (simp only: of_int_power of_int_numeral)
  have "ln ((3::real) ^ 289) < ln (2 ^ 468)"
    by (rule iffD2 [OF ln_less_cancel_iff r]) (rule zero_less_power, simp)+
  then show ?thesis by (simp only: ln_realpow of_nat_numeral)
qed

lemma focal_loss_soft_not_least:
  "focal_loss [[[[3/4]]]] [[[[2/3]]]] 2 (1/4) \<lparr>epsilon = 1/10000000, image_data_format = ChannelsLast\<rparr>
     < focal_loss [[[[3/4]]]] [[[[3/4]]]] 2 (1/4) \<lparr>epsilon = 1/10000000, image_data_format = ChannelsLast\<rparr>"
proof -
  have c: "clip1 (3/4) (1/10000000) (9999999/10000000) = 3/4"
    "clip1 (2/3) (1/10000000) (9999999/10000000) = 2/3"
    "clip1 (1/4) (1/10000000) (9999999/10000000) = 1/4"
    "clip1 (1/3) (1/10000000) (9999999/10000000) = 1/3"
    by (simp_all add: clip1_def)
  have l: "ln (3/4 :: real) = ln 3 - 2 * ln 2" "ln (2/3 :: real) = ln 2 - ln 3"
    "ln (1/4 :: real) = - (2 * ln 2)" "ln (1/3 :: real) = - ln 3"
    using ln_realpow [of "2::real" 2] by (simp_all add: ln_div)
  have a: "focal_loss [[[[3/4]]]] [[[[2/3]]]] 2 (1/4) \<lparr>epsilon = 1/10000000, image_data_format = ChannelsLast\<rparr>
      = (1/4) * ((1/16) * (ln 3 - ln 2) + (1/36) * ln 3)"
    by (simp add: focal_loss_def categorical_focal_loss_def clip_def log4_def pow4_def muls4_def
        rsub4_def neg4_def un4_def ew4_def ew3_def ew2_def ew1_def mean4_def flat4_def c l
        power2_eq_square field_simps)
  have b: "focal_loss [[[[3/4]]]] [[[[3/4]]]] 2 (1/4) \<lparr>epsilon = 1/10000000, image_data_format = ChannelsLast\<rparr>
      = (1/4) * ((9/256) * (2 * ln 2 - ln 3) + (9/256) * (2 * ln 2))"
    by (simp add: focal_loss_def categorical_focal_loss_def clip_def log4_def pow4_def muls4_def
        rsub4_def neg4_def un4_def ew4_def ew3_def ew2_def ew1_def mean4_def flat4_def c l
        power2_eq_square field_simps)
  show ?thesis unfolding a b using pow3_pow2 by argo
qed

section \<open>Further facts about the cross-entropy\<close>

text \<open>Where a sum along the channel axis is zero and the entries are not, the
  division gives infinities and the clipping brings them to its bounds: the pixel
  \<open>[1, -1]\<close> becomes \<open>[1 - eps, eps]\<close> and the loss is finite.\<close>

lemma categorical_crossentropy_infinities:
  "categorical_crossentropy [[[[1, 0]]]] [[[[1, -1]]]] (Scalar 1)
        \<lparr>epsilon = 1/8, image_data_format = ChannelsLast\<rparr> = Fin (- (ln (7/8) / 2))
   \<and> xclip (div_sum_axis3 [[[[1, -1]]]]) (1/8) (1 - 1/8) = [[[[Fin (7/8), Fin (1/8)]]]]"
  by (simp add: div_sum_axis3_def xdiv_def xsum_list_def
      categorical_crossentropy_def xclip_def xclip1_def xlog4_def fin4_def un4_def
      bin4_def bin3_def bin2_def bin1_def xmulw4_def xmean4_def xflat4_def xdiv_count_def)

end
